theory Spec2Isabelle
  imports Main "HOL-Library.Word" "HOL-Library.Multiset"
begin

unbundle bit_operations_syntax

section \<open>containerlab: the deploy command and the cEOS node kind\<close>

text \<open>
  A shallow embedding of \<^verbatim>\<open>cmd/deploy.go\<close> (the deploy command: worker limits,
  hosts-file generation, node enrichment, the post-deploy fan-out) and of the cEOS node
  kind (\<^verbatim>\<open>Init\<close>, \<^verbatim>\<open>createCEOSFiles\<close>, \<^verbatim>\<open>ceosPostDeploy\<close>).
  Go strings are byte sequences and are modelled as \<^typ>\<open>string\<close>; Go errors are values
  of the datatype \<open>error\<close>; a function that returns \<^verbatim>\<open>error\<close> returns
  \<open>error option\<close> here (\<open>None\<close> is \<^verbatim>\<open>nil\<close>).
\<close>

subsection \<open>Errors\<close>

datatype error =
    Errorf string                \<comment> \<open>\<^verbatim>\<open>fmt.Errorf(msg)\<close>\<close>
  | AddrError string string      \<comment> \<open>\<^verbatim>\<open>&net.AddrError{Err: e, Addr: a}\<close>\<close>
  | PathError string string      \<comment> \<open>\<^verbatim>\<open>&os.PathError{Op: op, Path: p}\<close>\<close>
  | ExternalError string         \<comment> \<open>an error produced by a collaborator outside this code\<close>
  | Panic string                 \<comment> \<open>a run-time panic, with its message\<close>

subsection \<open>Worker limits (\<^verbatim>\<open>deployCmd.RunE\<close>, lines 103 to 118)\<close>

text \<open>
  \<^verbatim>\<open>maxWorkers\<close>, \<^verbatim>\<open>numNodes\<close> and \<^verbatim>\<open>numLinks\<close> have Go's type \<^verbatim>\<open>uint\<close>, an
  unsigned machine integer of 32 or 64 bits: a word of any length \<open>'a\<close>. The item
  counts are \<^verbatim>\<open>uint(len(...))\<close>, passed in as they are. The function returns the pair
  \<open>(nodesMaxWorkers, linksMaxWorkers)\<close> handed to \<^verbatim>\<open>CreateNodes\<close> and \<^verbatim>\<open>CreateLinks\<close>.
\<close>

definition workerLimits :: "'a::len word \<Rightarrow> 'a word \<Rightarrow> 'a word \<Rightarrow> 'a word \<times> 'a word" where
  "workerLimits maxWorkers numNodes numLinks =
     (let nodesMaxWorkers = maxWorkers;
          linksMaxWorkers = maxWorkers;
          nodesMaxWorkers = (if maxWorkers = 0 then numNodes else nodesMaxWorkers);
          linksMaxWorkers = (if maxWorkers = 0 then numLinks else linksMaxWorkers);
          nodesMaxWorkers = (if nodesMaxWorkers > numNodes then numNodes else nodesMaxWorkers);
          linksMaxWorkers = (if linksMaxWorkers > numLinks then numLinks else linksMaxWorkers)
      in (nodesMaxWorkers, linksMaxWorkers))"

subsection \<open>Strings (Go's \<^verbatim>\<open>strings\<close> package)\<close>

text \<open>
  \<^verbatim>\<open>strings.TrimLeft(s, cutset)\<close> removes every leading code point of \<open>s\<close> that is
  in \<open>cutset\<close>. The only cutset used is \<^verbatim>\<open>"/"\<close>, one ASCII byte, which never occurs
  inside a multi-byte UTF-8 sequence, so trimming bytes is trimming code points.
\<close>

definition TrimLeft :: "string \<Rightarrow> string \<Rightarrow> string" where
  "TrimLeft s cutset = dropWhile (\<lambda>c. c \<in> set cutset) s"

text \<open>
  \<^verbatim>\<open>strings.ToLower\<close> maps \<^verbatim>\<open>'A'..'Z'\<close> to \<^verbatim>\<open>'a'..'z'\<close> (\<^verbatim>\<open>c += 'a' - 'A'\<close>). It
  also lowers non-ASCII upper-case code points, which the model leaves as they are: the
  result is only ever compared with \<^verbatim>\<open>"host"\<close>, and no non-ASCII code point has
  \<^verbatim>\<open>h\<close>, \<^verbatim>\<open>o\<close>, \<^verbatim>\<open>s\<close> or \<^verbatim>\<open>t\<close> as its lower case.
\<close>

definition toLowerByte :: "char \<Rightarrow> char" where
  "toLowerByte c =
     (let n = (of_char c :: nat) in if 65 \<le> n \<and> n \<le> 90 then char_of (n + 32) else c)"

definition ToLower :: "string \<Rightarrow> string" where
  "ToLower s = map toLowerByte s"

text \<open>Indexing a Go \<^verbatim>\<open>map[string]string\<close>: a missing key reads as the empty string.\<close>

definition map_index :: "(string \<rightharpoonup> string) \<Rightarrow> string \<Rightarrow> string" where
  "map_index m k = (case m k of None \<Rightarrow> [] | Some v \<Rightarrow> v)"

subsection \<open>Container and node records (package \<^verbatim>\<open>types\<close>)\<close>

text \<open>
  Modelled from the spec: the declarations of \<^verbatim>\<open>types.GenericContainer\<close>,
  \<^verbatim>\<open>types.NodeBase\<close> and \<^verbatim>\<open>types.NodeConfig\<close> are not among the sources. The records
  hold the fields the code reads and writes, named as the code names them: a container
  record has names, an ID, labels and network settings (a set/unset flag, the IPv4 and
  IPv6 address and prefix length); a node has its identity, its network mode and the
  observed container ID and management addresses. \<open>NodeConfig\<close>, the node record of the
  cEOS code, has the same fields and the desired runtime attributes and paths besides.
\<close>

record GenericMgmtIPs =
  Set :: bool
  IPv4addr :: string
  IPv4pLen :: int
  IPv6addr :: string
  IPv6pLen :: int

record GenericContainer =
  Names :: "string list"
  ID :: string
  Labels :: "string \<rightharpoonup> string"
  NetworkSettings :: GenericMgmtIPs

record NodeBase =
  ShortName :: string
  LongName :: string
  NetworkMode :: string
  MgmtIPv4Address :: string
  MgmtIPv4PrefixLength :: int
  MgmtIPv6Address :: string
  MgmtIPv6PrefixLength :: int
  ContainerID :: string

record NodeConfig = NodeBase +
  LabDir :: string
  Env :: "string \<rightharpoonup> string"
  Cmd :: string
  MacAddress :: string
  Binds :: "string list"
  ResConfig :: string
  NSPath :: string

subsection \<open>Hosts generation (\<^verbatim>\<open>hostsEntries\<close>, lines 229 to 251)\<close>

text \<open>
  The loop over the containers, with the buffer passed along. A container with no name
  is skipped; a container whose network settings are set appends one line for its IPv4
  address, if that is not empty, and one for its IPv6 address, if that is not empty.
  The tab is byte 9, the newline byte 10.
\<close>

fun hostsEntries_loop :: "GenericContainer list \<Rightarrow> string \<Rightarrow> string" where
  "hostsEntries_loop [] buff = buff"
| "hostsEntries_loop (cont # rest) buff =
     (if length (Names cont) = 0 then hostsEntries_loop rest buff
      else if Set (NetworkSettings cont) then
        (let buff = (if IPv4addr (NetworkSettings cont) \<noteq> []
                     then buff @ IPv4addr (NetworkSettings cont) @ [CHR 0x09]
                            @ TrimLeft (Names cont ! 0) ''/'' @ [CHR 0x0A]
                     else buff);
             buff = (if IPv6addr (NetworkSettings cont) \<noteq> []
                     then buff @ IPv6addr (NetworkSettings cont) @ [CHR 0x09]
                            @ TrimLeft (Names cont ! 0) ''/'' @ [CHR 0x0A]
                     else buff)
         in hostsEntries_loop rest buff)
      else hostsEntries_loop rest buff)"

definition hostsEntries :: "GenericContainer list \<Rightarrow> string \<Rightarrow> string" where
  "hostsEntries containers bridgeName = hostsEntries_loop containers []"

text \<open>The lines of a text blob: the pieces that end in a newline, without it.\<close>

fun lines_from :: "string \<Rightarrow> string \<Rightarrow> string list" where
  "lines_from cur [] = []"
| "lines_from cur (c # cs) =
     (if c = CHR 0x0A then cur # lines_from [] cs else lines_from (cur @ [c]) cs)"

definition lines_of :: "string \<Rightarrow> string list" where
  "lines_of s = lines_from [] s"

subsection \<open>Writing the hosts file (\<^verbatim>\<open>createHostsFile\<close>, lines 204 to 226)\<close>

text \<open>
  The operating system as explicit state: the content of every file that exists, and
  the calls made so far, in order. Whether a call fails for a reason outside the model
  (permissions, a full disk) is decided by fault oracles, which see the state at the
  call. \<^verbatim>\<open>os.OpenFile\<close> with \<^verbatim>\<open>O_APPEND|O_WRONLY\<close> and no \<^verbatim>\<open>O_CREATE\<close> fails on a
  file that does not exist. A failing write appends the bytes it wrote before failing.
\<close>

datatype syscall =
    SysOpenFile string
  | SysWriteString string string
  | SysWrite string string
  | SysClose string

record os_state =
  files :: "string \<rightharpoonup> string"
  syscalls :: "syscall list"

record os_faults =
  open_fault :: "os_state \<Rightarrow> string \<Rightarrow> error option"
  write_fault :: "os_state \<Rightarrow> string \<Rightarrow> string \<Rightarrow> (nat \<times> error) option"

definition os_OpenFile :: "os_faults \<Rightarrow> string \<Rightarrow> os_state \<Rightarrow> (error + string) \<times> os_state" where
  "os_OpenFile flt path st =
     (let st' = st\<lparr>syscalls := syscalls st @ [SysOpenFile path]\<rparr> in
      case open_fault flt st path of
        Some err \<Rightarrow> (Inl err, st')
      | None \<Rightarrow>
          (if files st path = None then (Inl (PathError ''open'' path), st')
           else (Inr path, st')))"

definition append_file :: "string \<Rightarrow> string \<Rightarrow> os_state \<Rightarrow> os_state" where
  "append_file f bytes st = st\<lparr>files := (files st)(f \<mapsto> map_index (files st) f @ bytes)\<rparr>"

definition file_Write :: "os_faults \<Rightarrow> string \<Rightarrow> string \<Rightarrow> os_state \<Rightarrow> error option \<times> os_state" where
  "file_Write flt f bytes st =
     (let st' = st\<lparr>syscalls := syscalls st @ [SysWrite f bytes]\<rparr> in
      case write_fault flt st f bytes of
        Some (n, err) \<Rightarrow> (Some err, append_file f (take n bytes) st')
      | None \<Rightarrow> (None, append_file f bytes st'))"

definition file_WriteString :: "os_faults \<Rightarrow> string \<Rightarrow> string \<Rightarrow> os_state \<Rightarrow> error option \<times> os_state" where
  "file_WriteString flt f s st =
     (let st' = st\<lparr>syscalls := syscalls st @ [SysWriteString f s]\<rparr> in
      case write_fault flt st f s of
        Some (n, err) \<Rightarrow> (Some err, append_file f (take n s) st')
      | None \<Rightarrow> (None, append_file f s st'))"

definition file_Close :: "string \<Rightarrow> os_state \<Rightarrow> os_state" where
  "file_Close f st = st\<lparr>syscalls := syscalls st @ [SysClose f]\<rparr>"

text \<open>\<^verbatim>\<open>defer f.Close()\<close> runs on every return after the file was opened.\<close>

definition createHostsFile ::
  "os_faults \<Rightarrow> GenericContainer list \<Rightarrow> string \<Rightarrow> os_state \<Rightarrow> error option \<times> os_state" where
  "createHostsFile flt containers bridgeName st =
     (if bridgeName = [] then (Some (Errorf ''missing bridge name''), st)
      else
        (let data = hostsEntries containers bridgeName in
         if length data = 0 then (None, st)
         else
           (case os_OpenFile flt ''/etc/hosts'' st of
              (Inl err, st1) \<Rightarrow> (Some err, st1)
            | (Inr f, st1) \<Rightarrow>
                (case file_WriteString flt f [CHR 0x0A] st1 of
                   (Some err, st2) \<Rightarrow> (Some err, file_Close f st2)
                 | (None, st2) \<Rightarrow>
                     (case file_Write flt f data st2 of
                        (Some err, st3) \<Rightarrow> (Some err, file_Close f st3)
                      | (None, st3) \<Rightarrow> (None, file_Close f st3))))))"

text \<open>
  The containers of the hosts-generation example, with their network settings set, and
  a container whose network settings are not set.
\<close>

definition example_r1 :: GenericContainer where
  "example_r1 = \<lparr>Names = [''/r1''], ID = ''id-r1'', Labels = [''clab-node-name'' \<mapsto> ''r1''],
     NetworkSettings = \<lparr>Set = True, IPv4addr = ''172.20.20.2'', IPv4pLen = 24,
       IPv6addr = [], IPv6pLen = 0\<rparr>\<rparr>"

definition example_r2 :: GenericContainer where
  "example_r2 = \<lparr>Names = [''/r2''], ID = ''id-r2'', Labels = [''clab-node-name'' \<mapsto> ''r2''],
     NetworkSettings = \<lparr>Set = True, IPv4addr = ''172.20.20.3'', IPv4pLen = 24,
       IPv6addr = ''2001:db8::3'', IPv6pLen = 64\<rparr>\<rparr>"

definition example_unset :: GenericContainer where
  "example_unset = \<lparr>Names = [''/r3''], ID = ''id-r3'', Labels = [''clab-node-name'' \<mapsto> ''r3''],
     NetworkSettings = \<lparr>Set = False, IPv4addr = ''172.20.20.4'', IPv4pLen = 24,
       IPv6addr = [], IPv6pLen = 0\<rparr>\<rparr>"

definition no_faults :: os_faults where
  "no_faults = \<lparr>open_fault = (\<lambda>st path. None), write_fault = (\<lambda>st f bytes. None)\<rparr>"

definition example_os :: os_state where
  "example_os = \<lparr>files = [''/etc/hosts'' \<mapsto> ''127.0.0.1 localhost''], syscalls = []\<rparr>"

subsection \<open>Enrichment (\<^verbatim>\<open>enrichNodes\<close>, lines 253 to 274)\<close>

text \<open>
  \<^verbatim>\<open>nodes\<close> is a \<^verbatim>\<open>map[string]*types.NodeBase\<close>: its values are pointers, two keys
  may share one node, and a pointer may be \<^verbatim>\<open>nil\<close>. The nodes live in a heap, a
  function from addresses to node records; the map holds references. Reading a field
  through a \<^verbatim>\<open>nil\<close> pointer panics. The loop also assigns the package-level variable
  \<^verbatim>\<open>name\<close> (declared elsewhere in package \<^verbatim>\<open>cmd\<close>) at every iteration, so the state
  that \<^verbatim>\<open>enrichNodes\<close> changes is that variable and the heap. \<open>enrichNode\<close> is the
  body of the loop for one container.
\<close>

datatype ref = NilRef | Ref nat

record cmd_state =
  name :: string
  heap :: "nat \<Rightarrow> NodeBase"

definition enrichNode :: "(string \<rightharpoonup> ref) \<Rightarrow> GenericContainer \<Rightarrow> cmd_state \<Rightarrow> error + cmd_state" where
  "enrichNode nodes c s =
     (let s = s\<lparr>name := map_index (Labels c) ''clab-node-name''\<rparr> in
      case nodes (name s) of
        None \<Rightarrow> Inr s
      | Some NilRef \<Rightarrow> Inl (Panic ''invalid memory address or nil pointer dereference'')
      | Some (Ref a) \<Rightarrow>
          (let node = heap s a in
           if ToLower (NetworkMode node) = ''host'' then Inr s
           else
             (let node = (if Set (NetworkSettings c)
                          then node\<lparr>MgmtIPv4Address := IPv4addr (NetworkSettings c),
                                    MgmtIPv4PrefixLength := IPv4pLen (NetworkSettings c),
                                    MgmtIPv6Address := IPv6addr (NetworkSettings c),
                                    MgmtIPv6PrefixLength := IPv6pLen (NetworkSettings c)\<rparr>
                          else node);
                  node = node\<lparr>ContainerID := ID c\<rparr>
              in Inr (s\<lparr>heap := (heap s)(a := node)\<rparr>))))"

fun enrichNodes ::
  "GenericContainer list \<Rightarrow> (string \<rightharpoonup> ref) \<Rightarrow> string \<Rightarrow> cmd_state \<Rightarrow> error + cmd_state" where
  "enrichNodes [] nodes mgmtNet s = Inr s"
| "enrichNodes (c # containers) nodes mgmtNet s =
     (case enrichNode nodes c s of
        Inl err \<Rightarrow> Inl err
      | Inr s' \<Rightarrow> enrichNodes containers nodes mgmtNet s')"

text \<open>
  For the idempotence proof: two runs of the loop from states whose nodes have the same
  network modes write every location alike. A location holds the same value after both
  runs (both wrote it), or its own starting value after each run (neither wrote it).
\<close>

definition mgmt_fields :: "NodeBase \<Rightarrow> string \<times> int \<times> string \<times> int" where
  "mgmt_fields n = (MgmtIPv4Address n, MgmtIPv4PrefixLength n, MgmtIPv6Address n, MgmtIPv6PrefixLength n)"

definition identity_fields :: "NodeBase \<Rightarrow> string \<times> string \<times> string" where
  "identity_fields n = (ShortName n, LongName n, NetworkMode n)"

definition written_alike :: "'v \<Rightarrow> 'v \<Rightarrow> 'v \<Rightarrow> 'v \<Rightarrow> bool" where
  "written_alike x y x' y' \<longleftrightarrow> x' = y' \<or> (x' = x \<and> y' = y)"

definition node_rel :: "NodeBase \<Rightarrow> NodeBase \<Rightarrow> NodeBase \<Rightarrow> NodeBase \<Rightarrow> bool" where
  "node_rel x y x' y' \<longleftrightarrow>
     identity_fields x' = identity_fields x \<and> identity_fields y' = identity_fields y
     \<and> written_alike (mgmt_fields x) (mgmt_fields y) (mgmt_fields x') (mgmt_fields y')
     \<and> written_alike (ContainerID x) (ContainerID y) (ContainerID x') (ContainerID y')"

definition state_rel :: "cmd_state \<Rightarrow> cmd_state \<Rightarrow> cmd_state \<Rightarrow> cmd_state \<Rightarrow> bool" where
  "state_rel s t s' t' \<longleftrightarrow>
     written_alike (name s) (name t) (name s') (name t')
     \<and> (\<forall>a. node_rel (heap s a) (heap t a) (heap s' a) (heap t' a))"

definition same_modes :: "cmd_state \<Rightarrow> cmd_state \<Rightarrow> bool" where
  "same_modes s t \<longleftrightarrow> (\<forall>a. NetworkMode (heap s a) = NetworkMode (heap t a))"

text \<open>Two nodes, \<open>r1\<close> on a bridge network and \<open>r2\<close> on the host network.\<close>

definition example_node :: "string \<Rightarrow> string \<Rightarrow> NodeBase" where
  "example_node n mode = \<lparr>ShortName = n, LongName = ''clab-lab-'' @ n, NetworkMode = mode,
     MgmtIPv4Address = [], MgmtIPv4PrefixLength = 0, MgmtIPv6Address = [],
     MgmtIPv6PrefixLength = 0, ContainerID = []\<rparr>"

definition example_nodes :: "string \<rightharpoonup> ref" where
  "example_nodes = [''r1'' \<mapsto> Ref 0, ''r2'' \<mapsto> Ref 1]"

definition example_state :: cmd_state where
  "example_state = \<lparr>name = ''lab'',
     heap = (\<lambda>a. if a = 0 then example_node ''r1'' ''bridge'' else example_node ''r2'' ''Host'')\<rparr>"

subsection \<open>MAC addresses (Go's \<^verbatim>\<open>net\<close> package)\<close>

text \<open>
  \<^verbatim>\<open>net.ParseMAC\<close> and \<^verbatim>\<open>HardwareAddr.String\<close> belong to Go's standard library. A
  hardware address is a byte slice. \<^verbatim>\<open>ParseMAC\<close> accepts 6, 8 or 20 bytes written as
  two hex digits each, separated by colons or by hyphens, or in groups of four digits
  separated by dots; \<^verbatim>\<open>xtoi2\<close> reads two hex digits and checks the separator that
  follows them. Go's loop stops at the first bad byte, with the same error for each.
  \<^verbatim>\<open>String\<close> prints the bytes in lower-case hex, separated by colons.
\<close>

type_synonym byte = "8 word"

definition hexval :: "char \<Rightarrow> nat option" where
  "hexval c =
     (let k = (of_char c :: nat) in
      if 48 \<le> k \<and> k \<le> 57 then Some (k - 48)
      else if 97 \<le> k \<and> k \<le> 102 then Some (k - 97 + 10)
      else if 65 \<le> k \<and> k \<le> 70 then Some (k - 65 + 10)
      else None)"

definition xtoi2 :: "string \<Rightarrow> char \<Rightarrow> byte option" where
  "xtoi2 s e =
     (if length s > 2 \<and> s ! 2 \<noteq> e then None
      else (case (hexval (s ! 0), hexval (s ! 1)) of
              (Some a, Some b) \<Rightarrow> Some (of_nat (a * 16 + b))
            | _ \<Rightarrow> None))"

definition ParseMAC :: "string \<Rightarrow> error + byte list" where
  "ParseMAC s =
     (let invalid = Inl (AddrError ''invalid MAC address'' s) in
      if length s < 14 then invalid
      else if s ! 2 = CHR '':'' \<or> s ! 2 = CHR ''-'' then
        (if (length s + 1) mod 3 \<noteq> 0 then invalid
         else
           (let n = (length s + 1) div 3 in
            if n \<noteq> 6 \<and> n \<noteq> 8 \<and> n \<noteq> 20 then invalid
            else (case those (map (\<lambda>i. xtoi2 (drop (3 * i) s) (s ! 2)) [0..<n]) of
                    None \<Rightarrow> invalid
                  | Some hw \<Rightarrow> Inr hw)))
      else if s ! 4 = CHR ''.'' then
        (if (length s + 1) mod 5 \<noteq> 0 then invalid
         else
           (let n = 2 * (length s + 1) div 5 in
            if n \<noteq> 6 \<and> n \<noteq> 8 \<and> n \<noteq> 20 then invalid
            else (case those (concat (map (\<lambda>j. [xtoi2 (take 2 (drop (5 * j) s)) (CHR 0x00),
                                                 xtoi2 (drop (5 * j + 2) s) (s ! 4)])
                                      [0..<n div 2])) of
                    None \<Rightarrow> invalid
                  | Some hw \<Rightarrow> Inr hw)))
      else invalid)"

definition hexDigit :: string where
  "hexDigit = ''0123456789abcdef''"

fun HardwareAddr_String_loop :: "nat \<Rightarrow> byte list \<Rightarrow> string \<Rightarrow> string" where
  "HardwareAddr_String_loop i [] buf = buf"
| "HardwareAddr_String_loop i (b # rest) buf =
     (let buf = (if i > 0 then buf @ [CHR '':''] else buf);
          buf = buf @ [hexDigit ! unat (drop_bit 4 b)];
          buf = buf @ [hexDigit ! unat (b AND 0xF)]
      in HardwareAddr_String_loop (i + 1) rest buf)"

text \<open>The two digits that \<^verbatim>\<open>String\<close> prints for one byte.\<close>

definition hex2 :: "byte \<Rightarrow> string" where
  "hex2 b = [hexDigit ! unat (drop_bit 4 b), hexDigit ! unat (b AND 0xF)]"

definition HardwareAddr_String :: "byte list \<Rightarrow> string" where
  "HardwareAddr_String a = (if length a = 0 then [] else HardwareAddr_String_loop 0 a [])"

subsection \<open>Collaborators\<close>

text \<open>
  The container runtime (the interface \<^verbatim>\<open>runtime.ContainerRuntime\<close>), the helpers of
  package \<^verbatim>\<open>utils\<close>, \<^verbatim>\<open>NodeConfig.GenerateConfig\<close> and the functions of package
  \<^verbatim>\<open>clab\<close> are not among the sources. A call to one of them is recorded, with its
  arguments, in a trace that is passed along: the trace is the state of the world
  outside this code. For a call that returns an error, a record of oracles stands for
  the collaborators: \<open>outcome\<close> decides, from the trace so far and the call, whether the
  call fails and with which error, and \<open>ns_path\<close> gives the path that
  \<^verbatim>\<open>GetNSPath\<close> returns. The \<^verbatim>\<open>context.Context\<close> argument is left out. The calls of
  \<^verbatim>\<open>utils.CreateDirectory\<close> and \<^verbatim>\<open>utils.CreateFile\<close> return nothing the code reads.
  The \<^verbatim>\<open>logrus\<close> messages of the cEOS code are not modelled; the orchestrator's are.
\<close>

datatype call =
    CreateDirectory string nat
  | CreateFile string string
  | CreateContainer NodeConfig
  | GenerateConfig NodeConfig string string
  | StopContainer string int
  | DeleteNetnsSymlink string
  | StartContainer string
  | GetNSPath string
  | LinkContainerNS string string
  | CreateLinks nat bool
  | NewVerNotification
  | PrintContainerInspect "GenericContainer list" string

record collaborators =
  outcome :: "call list \<Rightarrow> call \<Rightarrow> error option"
  ns_path :: "call list \<Rightarrow> string \<Rightarrow> string"

definition invoke :: "collaborators \<Rightarrow> call \<Rightarrow> call list \<Rightarrow> error option \<times> call list" where
  "invoke r c tr = (outcome r tr c, tr @ [c])"

definition perform :: "call \<Rightarrow> call list \<Rightarrow> call list" where
  "perform c tr = tr @ [c]"

subsection \<open>The cEOS node kind\<close>

text \<open>The node object holds a pointer to its configuration and nothing else.\<close>

record ceos =
  cfg :: NodeConfig

text \<open>The map literal \<^verbatim>\<open>ceosEnv\<close>, as the list of its entries; the map is \<open>map_of ceosEnv\<close>.\<close>

definition ceosEnv :: "(string \<times> string) list" where
  "ceosEnv =
     [(''CEOS'', ''1''),
      (''EOS_PLATFORM'', ''ceoslab''),
      (''container'', ''docker''),
      (''ETBA'', ''4''),
      (''SKIP_ZEROTOUCH_BARRIER_IN_SYSDBINIT'', ''1''),
      (''INTFTYPE'', ''eth''),
      (''MAPETH0'', ''1''),
      (''MGMT_INTF'', ''eth0'')]"

text \<open>
  \<^verbatim>\<open>Init\<close> (lines 49 to 70). What one invocation gets from outside: the absent
  \<^verbatim>\<open>utils.MergeStringMaps\<close> and \<^verbatim>\<open>utils.GenMac\<close> (which draws random bytes), the
  standard library's \<^verbatim>\<open>filepath.Join\<close>, and the order in which
  \<^verbatim>\<open>for k, v := range s.cfg.Env\<close> visits the keys of the map. Go leaves the iteration
  order of a map unspecified and its runtime varies it from one loop to the next, so the
  order belongs to the invocation, not to the map: \<open>range_order\<close> is any list that holds
  every key of the map once (\<open>is_range_order\<close>). An option is a function on the node.
\<close>

record init_env =
  MergeStringMaps :: "(string \<rightharpoonup> string) \<Rightarrow> (string \<rightharpoonup> string) \<Rightarrow> (string \<rightharpoonup> string)"
  GenMac :: "string \<Rightarrow> string"
  filepath_Join :: "string list \<Rightarrow> string"
  range_order :: "string list"

definition is_range_order :: "(string \<rightharpoonup> string) \<Rightarrow> string list \<Rightarrow> bool" where
  "is_range_order m ks \<longleftrightarrow> distinct ks \<and> set ks = dom m"

fun Init_loop :: "string list \<Rightarrow> (string \<rightharpoonup> string) \<Rightarrow> string \<Rightarrow> string" where
  "Init_loop [] env envSb = envSb"
| "Init_loop (k # ks) env envSb =
     Init_loop ks env (envSb @ (''systemd.setenv='' @ k @ ''='' @ map_index env k @ '' ''))"

definition Init :: "init_env \<Rightarrow> ceos \<Rightarrow> NodeConfig \<Rightarrow> (ceos \<Rightarrow> ceos) list \<Rightarrow> error option \<times> ceos" where
  "Init ext s cfg0 opts =
     (let s = s\<lparr>cfg := cfg0\<rparr>;
          s = foldl (\<lambda>s opt. opt s) s opts;
          s = s\<lparr>cfg := (cfg s)\<lparr>Env := MergeStringMaps ext (map_of ceosEnv) (Env (cfg s))\<rparr>\<rparr>;
          envSb = ''/sbin/init '';
          envSb = Init_loop (range_order ext) (Env (cfg s)) envSb;
          s = s\<lparr>cfg := (cfg s)\<lparr>Cmd := envSb\<rparr>\<rparr>;
          s = s\<lparr>cfg := (cfg s)\<lparr>MacAddress := GenMac ext ''00:1c:73''\<rparr>\<rparr>;
          cfgPath = filepath_Join ext [LabDir (cfg s), ''flash''];
          s = s\<lparr>cfg := (cfg s)\<lparr>Binds := Binds (cfg s) @ [cfgPath @ '':/mnt/flash/'']\<rparr>\<rparr>
      in (None, s))"

text \<open>
  \<^verbatim>\<open>createCEOSFiles\<close> (lines 92 to 106) and \<^verbatim>\<open>PreDeploy\<close> (lines 74 to 77). The
  standard library's \<^verbatim>\<open>path.Join\<close> is a parameter: how it cleans a path matters to
  nothing here. The permission \<^verbatim>\<open>0777\<close> is 511. \<^verbatim>\<open>m[5]\<close> is in range, since a
  parsed address has 6, 8 or 20 bytes, and the byte addition wraps around. The
  parameters \<^verbatim>\<open>configName\<close>, \<^verbatim>\<open>labCADir\<close> and \<^verbatim>\<open>labCARoot\<close> of \<^verbatim>\<open>PreDeploy\<close>, which
  it does not use, are left out.
\<close>

definition createCEOSFiles ::
  "(string list \<Rightarrow> string) \<Rightarrow> NodeConfig \<Rightarrow> call list \<Rightarrow> error option \<times> NodeConfig \<times> call list" where
  "createCEOSFiles path_Join node tr =
     (let tr = perform (CreateDirectory (path_Join [LabDir node, ''flash'']) 511) tr;
          cfg = path_Join [LabDir node, ''flash'', ''startup-config''];
          node = node\<lparr>ResConfig := cfg\<rparr>
      in case ParseMAC (MacAddress node) of
           Inl err \<Rightarrow> (Some err, node, tr)
         | Inr m \<Rightarrow>
             (let m = m[5 := m ! 5 + 1];
                  tr = perform (CreateFile (path_Join [LabDir node, ''flash'', ''system_mac_address''])
                                  (HardwareAddr_String m)) tr
              in (None, node, tr)))"

definition PreDeploy ::
  "(string list \<Rightarrow> string) \<Rightarrow> ceos \<Rightarrow> call list \<Rightarrow> error option \<times> ceos \<times> call list" where
  "PreDeploy path_Join s tr =
     (let tr = perform (CreateDirectory (LabDir (cfg s)) 511) tr in
      case createCEOSFiles path_Join (cfg s) tr of
        (err, node, tr) \<Rightarrow> (err, s\<lparr>cfg := node\<rparr>, tr))"

definition Deploy :: "collaborators \<Rightarrow> ceos \<Rightarrow> call list \<Rightarrow> error option \<times> call list" where
  "Deploy r s tr = invoke r (CreateContainer (cfg s)) tr"

text \<open>
  \<^verbatim>\<open>ceosPostDeploy\<close> (lines 108 to 135): six calls, each returning at once when the
  call fails. \<^verbatim>\<open>cfgTemplate\<close> is the embedded file \<^verbatim>\<open>ceos.cfg\<close>, a parameter. The
  stop timeout is \<^verbatim>\<open>time.Duration\<close> 1. The result of \<^verbatim>\<open>GetNSPath\<close> is assigned to
  \<^verbatim>\<open>nodeCfg.NSPath\<close> before the error is looked at. \<^verbatim>\<open>PostDeploy\<close> (lines 83 to 86)
  hands the node's configuration to it; its parameter \<^verbatim>\<open>ns\<close>, unused, is left out.
\<close>

definition ceosPostDeploy ::
  "collaborators \<Rightarrow> string \<Rightarrow> NodeConfig \<Rightarrow> call list \<Rightarrow> error option \<times> NodeConfig \<times> call list" where
  "ceosPostDeploy r cfgTemplate nodeCfg tr =
     (case invoke r (GenerateConfig nodeCfg (ResConfig nodeCfg) cfgTemplate) tr of
        (Some err, tr) \<Rightarrow> (Some err, nodeCfg, tr)
      | (None, tr) \<Rightarrow>
     (let timeout = 1 in
      case invoke r (StopContainer (ContainerID nodeCfg) timeout) tr of
        (Some err, tr) \<Rightarrow> (Some err, nodeCfg, tr)
      | (None, tr) \<Rightarrow>
     (case invoke r (DeleteNetnsSymlink (LongName nodeCfg)) tr of
        (Some err, tr) \<Rightarrow> (Some err, nodeCfg, tr)
      | (None, tr) \<Rightarrow>
     (case invoke r (StartContainer (ContainerID nodeCfg)) tr of
        (Some err, tr) \<Rightarrow> (Some err, nodeCfg, tr)
      | (None, tr) \<Rightarrow>
     (let nodeCfg = nodeCfg\<lparr>NSPath := ns_path r tr (ContainerID nodeCfg)\<rparr> in
      case invoke r (GetNSPath (ContainerID nodeCfg)) tr of
        (Some err, tr) \<Rightarrow> (Some err, nodeCfg, tr)
      | (None, tr) \<Rightarrow>
     (case invoke r (LinkContainerNS (NSPath nodeCfg) (LongName nodeCfg)) tr of
        (err, tr) \<Rightarrow> (err, nodeCfg, tr)))))))"

definition PostDeploy ::
  "collaborators \<Rightarrow> string \<Rightarrow> ceos \<Rightarrow> call list \<Rightarrow> error option \<times> ceos \<times> call list" where
  "PostDeploy r cfgTemplate s tr =
     (case ceosPostDeploy r cfgTemplate (cfg s) tr of
        (err, node, tr) \<Rightarrow> (err, s\<lparr>cfg := node\<rparr>, tr))"



definition bootstrap_calls :: "collaborators \<Rightarrow> string \<Rightarrow> NodeConfig \<Rightarrow> call list \<Rightarrow> call list" where
  "bootstrap_calls r cfgTemplate nodeCfg tr =
     [GenerateConfig nodeCfg (ResConfig nodeCfg) cfgTemplate,
      StopContainer (ContainerID nodeCfg) 1,
      DeleteNetnsSymlink (LongName nodeCfg),
      StartContainer (ContainerID nodeCfg),
      GetNSPath (ContainerID nodeCfg),
      LinkContainerNS
        (ns_path r (tr @ [GenerateConfig nodeCfg (ResConfig nodeCfg) cfgTemplate,
                          StopContainer (ContainerID nodeCfg) 1,
                          DeleteNetnsSymlink (LongName nodeCfg),
                          StartContainer (ContainerID nodeCfg)]) (ContainerID nodeCfg))
        (LongName nodeCfg)]"

text \<open>What one iteration of the loop in \<^verbatim>\<open>Init\<close> writes for the key \<open>k\<close>.\<close>

definition setenv_entry :: "(string \<rightharpoonup> string) \<Rightarrow> string \<Rightarrow> string" where
  "setenv_entry env k = ''systemd.setenv='' @ k @ ''='' @ map_index env k @ '' ''"

subsection \<open>The post-deploy fan-out (\<^verbatim>\<open>deployCmd.RunE\<close>, lines 147 to 176)\<close>

text \<open>
  \<^verbatim>\<open>RunE\<close> starts one goroutine for every node, each calling
  \<^verbatim>\<open>c.ExecPostDeployTasks\<close> and logging the error it returns, and waits for all of them.
  \<^verbatim>\<open>ExecPostDeployTasks\<close> is not among the sources: it is the parameter \<open>exec\<close>, which
  takes the node, the link worker limit and the trace, and returns its error, the node
  and the trace. The goroutines are run one after the other, in the order of the list
  of nodes, which stands for any order of the map and of the scheduler; each works on
  its own node. No goroutine reads another's error, and nothing cancels the context.
  The node is a pointer: the task may change it, and the log reads its short name after
  the task has returned.
  A log message is its format string and its arguments. After the fan-out \<^verbatim>\<open>RunE\<close>
  creates the remaining links, writes the hosts file, logging a failure, prints the
  summary and returns \<^verbatim>\<open>nil\<close>.
\<close>

datatype log_arg = ArgString string | ArgError error

datatype log_entry = LogInfo string | LogErrorf string "log_arg list"

record deploy_world =
  calls :: "call list"
  os :: os_state
  logs :: "log_entry list"

fun postDeployFanout ::
  "('a NodeBase_scheme \<Rightarrow> nat \<Rightarrow> call list \<Rightarrow> error option \<times> 'a NodeBase_scheme \<times> call list)
   \<Rightarrow> 'a NodeBase_scheme list \<Rightarrow> nat \<Rightarrow> call list \<Rightarrow> log_entry list
   \<Rightarrow> 'a NodeBase_scheme list \<times> call list \<times> log_entry list" where
  "postDeployFanout exec [] linksMaxWorkers tr lg = ([], tr, lg)"
| "postDeployFanout exec (node # rest) linksMaxWorkers tr lg =
     (case exec node linksMaxWorkers tr of
        (err, node', tr) \<Rightarrow>
          (let lg = (case err of
                       Some e \<Rightarrow> lg @ [LogErrorf ''failed to run postdeploy task for node %s: %v''
                                          [ArgString (ShortName node'), ArgError e]]
                     | None \<Rightarrow> lg)
           in case postDeployFanout exec rest linksMaxWorkers tr lg of
                (rest', tr, lg) \<Rightarrow> (node' # rest', tr, lg)))"

definition RunE_postDeploy ::
  "('a NodeBase_scheme \<Rightarrow> nat \<Rightarrow> call list \<Rightarrow> error option \<times> 'a NodeBase_scheme \<times> call list)
   \<Rightarrow> os_faults \<Rightarrow> 'a NodeBase_scheme list \<Rightarrow> GenericContainer list \<Rightarrow> string \<Rightarrow> nat
   \<Rightarrow> deploy_world \<Rightarrow> error option \<times> 'a NodeBase_scheme list \<times> deploy_world" where
  "RunE_postDeploy exec flt nodes containers mgmtNetwork linksMaxWorkers w =
     (case postDeployFanout exec nodes linksMaxWorkers (calls w) (logs w) of
        (nodes', tr, lg) \<Rightarrow>
          (let tr = perform (CreateLinks linksMaxWorkers True) tr;
               lg = lg @ [LogInfo ''Writing /etc/hosts file'']
           in case createHostsFile flt containers mgmtNetwork (os w) of
                (err, os') \<Rightarrow>
                  (let lg = (case err of
                               Some e \<Rightarrow> lg @ [LogErrorf ''failed to create hosts file: %v'' [ArgError e]]
                             | None \<Rightarrow> lg);
                       tr = perform NewVerNotification tr;
                       tr = perform (PrintContainerInspect containers mgmtNetwork) tr
                   in (None, nodes', \<lparr>calls = tr, os = os', logs = lg\<rparr>))))"

text \<open>
  Example collaborators and nodes: a join that puts a slash between the elements, a
  runtime where every call succeeds, and one that cannot stop the container of \<open>r1\<close>.
  In the examples the post-deploy task of a node is the cEOS \<^verbatim>\<open>ceosPostDeploy\<close>.
\<close>

definition example_join :: "string list \<Rightarrow> string" where
  "example_join elems =
     (case elems of [] \<Rightarrow> [] | e # es \<Rightarrow> e @ concat (map (\<lambda>x. CHR ''/'' # x) es))"

definition example_init_env :: "string list \<Rightarrow> init_env" where
  "example_init_env order =
     \<lparr>MergeStringMaps = (\<lambda>m1 m2. m1 ++ m2),
      GenMac = (\<lambda>oui. oui @ '':aa:bb:ff''),
      filepath_Join = example_join,
      range_order = order\<rparr>"

definition example_cfg :: "string \<Rightarrow> NodeConfig" where
  "example_cfg n = \<lparr>ShortName = n, LongName = ''clab-lab-'' @ n, NetworkMode = ''bridge'',
     MgmtIPv4Address = ''172.20.20.2'', MgmtIPv4PrefixLength = 24, MgmtIPv6Address = [],
     MgmtIPv6PrefixLength = 0, ContainerID = ''id-'' @ n,
     LabDir = ''/lab/'' @ n, Env = Map.empty, Cmd = [], MacAddress = ''00:1c:73:aa:bb:ff'',
     Binds = [], ResConfig = ''/lab/'' @ n @ ''/flash/startup-config'', NSPath = []\<rparr>"


definition stop_fails :: collaborators where
  "stop_fails =
     \<lparr>outcome = (\<lambda>tr c. case c of
          StopContainer cid t \<Rightarrow> (if cid = ''id-r1'' then Some (ExternalError ''cannot stop'') else None)
        | _ \<Rightarrow> None),
      ns_path = (\<lambda>tr cid. ''/proc/42/ns/net'')\<rparr>"

definition ceos_task ::
  "collaborators \<Rightarrow> string \<Rightarrow> NodeConfig \<Rightarrow> nat \<Rightarrow> call list \<Rightarrow> error option \<times> NodeConfig \<times> call list" where
  "ceos_task r cfgTemplate node lworkers tr = ceosPostDeploy r cfgTemplate node tr"

definition ceosEnv_keys :: "string list" where
  "ceosEnv_keys = map fst ceosEnv"

section \<open>Theorems\<close>

subsection \<open>Worker limits\<close>

lemma word_nonzero_ge_1: "(m :: 'a::len word) \<noteq> 0 \<Longrightarrow> 1 \<le> m"
  by (simp add: word_le_nat_alt unat_eq_0 Suc_le_eq unat_gt_0)

lemma nodes_limit_eq:
  "fst (workerLimits M Nn Nl) = (if M = 0 then Nn else min M Nn)"
  by (auto simp: workerLimits_def Let_def min_def)

lemma links_limit_eq:
  "snd (workerLimits M Nn Nl) = (if M = 0 then Nl else min M Nl)"
  by (auto simp: workerLimits_def Let_def min_def)

text \<open>
  C3. For every configured maximum \<open>M\<close> and item counts \<open>Nn\<close> (nodes) and \<open>Nl\<close>
  (links), each limit \<open>L\<close> equals the item count when \<open>M = 0\<close> and \<open>min M N\<close>
  otherwise, and satisfies \<open>1 \<le> L \<le> N\<close> whenever \<open>N \<ge> 1\<close>.
\<close>

theorem C3_worker_limit:
  fixes M Nn Nl :: "'a::len word"
  shows "fst (workerLimits M Nn Nl) = (if M = 0 then Nn else min M Nn)
       \<and> snd (workerLimits M Nn Nl) = (if M = 0 then Nl else min M Nl)
       \<and> (1 \<le> Nn \<longrightarrow> 1 \<le> fst (workerLimits M Nn Nl) \<and> fst (workerLimits M Nn Nl) \<le> Nn)
       \<and> (1 \<le> Nl \<longrightarrow> 1 \<le> snd (workerLimits M Nn Nl) \<and> snd (workerLimits M Nn Nl) \<le> Nl)"
proof -
  have bound: "1 \<le> (if M = 0 then N else min M N) \<and> (if M = 0 then N else min M N) \<le> N"
    if "1 \<le> N" for N :: "'a word"
    using that word_nonzero_ge_1 [of M] by (auto simp: min_def)
  show ?thesis
    unfolding nodes_limit_eq links_limit_eq using bound by blast
qed

theorem C3_worker_limit_witness:
  "(1::64 word) \<le> 5 \<and> (1::64 word) \<le> 2
   \<and> workerLimits (3::64 word) 5 2 = (3, 2)
   \<and> workerLimits (0::64 word) 5 2 = (5, 2)"
  using C3_worker_limit [of "3::64 word" 5 2] C3_worker_limit [of "0::64 word" 5 2]
  by (simp add: workerLimits_def)

subsection \<open>Hosts generation\<close>

lemma example_hosts_blob:
  "hostsEntries [example_r1, example_r2] ''clab'' =
     ''172.20.20.2'' @ [CHR 0x09] @ ''r1'' @ [CHR 0x0A]
     @ ''172.20.20.3'' @ [CHR 0x09] @ ''r2'' @ [CHR 0x0A]
     @ ''2001:db8::3'' @ [CHR 0x09] @ ''r2'' @ [CHR 0x0A]"
  by (simp add: hostsEntries_def example_r1_def example_r2_def TrimLeft_def)

text \<open>
  C4, amended. For the containers \<open>/r1\<close> (IPv4 \<open>172.20.20.2\<close>, no IPv6) and \<open>/r2\<close>
  (IPv4 \<open>172.20.20.3\<close>, IPv6 \<open>2001:db8::3\<close>), both with their network settings set,
  and the bridge \<open>clab\<close>, hosts generation outputs exactly three lines: one for r1's
  IPv4 address and two for r2 (IPv4, then IPv6), each of the form address, tab, name,
  newline, the name without its leading slash.
\<close>

theorem C4_hosts_example:
  "hostsEntries [example_r1, example_r2] ''clab'' =
     ''172.20.20.2'' @ [CHR 0x09] @ ''r1'' @ [CHR 0x0A]
     @ ''172.20.20.3'' @ [CHR 0x09] @ ''r2'' @ [CHR 0x0A]
     @ ''2001:db8::3'' @ [CHR 0x09] @ ''r2'' @ [CHR 0x0A]
   \<and> lines_of (hostsEntries [example_r1, example_r2] ''clab'') =
     [''172.20.20.2'' @ [CHR 0x09] @ ''r1'',
      ''172.20.20.3'' @ [CHR 0x09] @ ''r2'',
      ''2001:db8::3'' @ [CHR 0x09] @ ''r2'']"
  unfolding example_hosts_blob by (simp add: lines_of_def)

text \<open>
  C4 as stated asks for exactly two lines for r1's IPv4 address. The output has one.
\<close>

theorem C4_two_lines_for_r1_counterexample:
  "count_list (lines_of (hostsEntries [example_r1, example_r2] ''clab''))
     (''172.20.20.2'' @ [CHR 0x09] @ ''r1'') \<noteq> 2"
  unfolding example_hosts_blob by (simp add: lines_of_def)

lemma hostsEntries_loop_unset:
  "\<forall>c \<in> set cs. \<not> Set (NetworkSettings c) \<Longrightarrow> hostsEntries_loop cs buff = buff"
  by (induction cs arbitrary: buff) auto

lemma hostsEntries_unset:
  "\<forall>c \<in> set cs. \<not> Set (NetworkSettings c) \<Longrightarrow> hostsEntries cs bridgeName = []"
  by (simp add: hostsEntries_def hostsEntries_loop_unset)

text \<open>
  C6, amended. \<^verbatim>\<open>createHostsFile\<close> with an empty bridge name returns the error
  \<open>missing bridge name\<close> for every list of containers, with a container whose network
  settings are set or with none, and touches nothing. With no container whose network
  settings are set and a bridge name that is not empty, the blob it generates is empty
  and it returns \<^verbatim>\<open>nil\<close>, again touching nothing.
\<close>

theorem C6_hosts_errors:
  "createHostsFile flt cs [] st = (Some (Errorf ''missing bridge name''), st)
   \<and> ((\<forall>c \<in> set cs'. \<not> Set (NetworkSettings c)) \<longrightarrow> bridgeName \<noteq> [] \<longrightarrow>
        hostsEntries cs' bridgeName = []
        \<and> createHostsFile flt cs' bridgeName st = (None, st))"
  by (simp add: createHostsFile_def hostsEntries_unset)

text \<open>
  C6 as stated promises the empty blob for no eligible container whatever the bridge
  name is. With the empty bridge name \<^verbatim>\<open>createHostsFile\<close> returns the error there too:
  the bridge name is checked before the containers are looked at.
\<close>

theorem C6_empty_bridge_counterexample:
  "\<not> Set (NetworkSettings example_unset)
   \<and> createHostsFile no_faults [example_unset] [] example_os
       = (Some (Errorf ''missing bridge name''), example_os)
   \<and> fst (createHostsFile no_faults [example_unset] [] example_os) \<noteq> None"
  by (simp add: createHostsFile_def example_unset_def)

theorem C6_hosts_errors_witness:
  "Set (NetworkSettings example_r1)
   \<and> createHostsFile no_faults [example_r1] [] example_os
       = (Some (Errorf ''missing bridge name''), example_os)
   \<and> \<not> Set (NetworkSettings example_unset)
   \<and> ''clab'' \<noteq> []
   \<and> hostsEntries [example_unset] ''clab'' = []
   \<and> createHostsFile no_faults [example_unset] ''clab'' example_os = (None, example_os)"
  using C6_hosts_errors [of no_faults "[example_r1]" example_os "[example_unset]" "''clab''"]
  by (simp add: example_r1_def example_unset_def)

text \<open>
  C9. When the bridge name is not empty and hosts generation produces no bytes,
  \<^verbatim>\<open>createHostsFile\<close> returns \<^verbatim>\<open>nil\<close> and leaves the operating-system state as it
  was: no call is made (no open, no write, no close) and no file changes.
\<close>

theorem C9_no_data_no_write:
  assumes "bridgeName \<noteq> []" and "hostsEntries cs bridgeName = []"
  shows "createHostsFile flt cs bridgeName st = (None, st)"
  using assms by (simp add: createHostsFile_def)

lemma example_unset_no_data: "hostsEntries [example_unset] ''clab'' = []"
  by (simp add: hostsEntries_def example_unset_def)

theorem C9_no_data_no_write_witness:
  "''clab'' \<noteq> [] \<and> hostsEntries [example_unset] ''clab'' = []
   \<and> createHostsFile no_faults [example_unset] ''clab'' example_os = (None, example_os)
   \<and> syscalls (snd (createHostsFile no_faults [example_unset] ''clab'' example_os)) = []"
  using C9_no_data_no_write [of "''clab''" "[example_unset]" no_faults example_os]
    example_unset_no_data
  by (simp add: example_os_def)

text \<open>
  With data to write and no fault, the file is opened, a newline and the data are
  appended, and the file is closed: the empty case above is the only silent one.
\<close>

lemma createHostsFile_writes:
  "createHostsFile no_faults [example_r1] ''clab'' example_os =
     (None, \<lparr>files = [''/etc/hosts'' \<mapsto> ''127.0.0.1 localhost'' @ [CHR 0x0A]
                 @ ''172.20.20.2'' @ [CHR 0x09] @ ''r1'' @ [CHR 0x0A]],
        syscalls = [SysOpenFile ''/etc/hosts'', SysWriteString ''/etc/hosts'' [CHR 0x0A],
          SysWrite ''/etc/hosts'' (''172.20.20.2'' @ [CHR 0x09] @ ''r1'' @ [CHR 0x0A]),
          SysClose ''/etc/hosts'']\<rparr>)"
  by (simp add: createHostsFile_def hostsEntries_def example_r1_def TrimLeft_def
      os_OpenFile_def file_WriteString_def file_Write_def file_Close_def append_file_def
      no_faults_def example_os_def map_index_def Let_def)

subsection \<open>Enrichment\<close>

lemma written_alike_refl: "written_alike x y x y"
  by (simp add: written_alike_def)

lemma written_alike_trans:
  "written_alike x y x1 y1 \<Longrightarrow> written_alike x1 y1 x' y' \<Longrightarrow> written_alike x y x' y'"
  by (auto simp: written_alike_def)

lemma state_rel_refl: "state_rel s t s t"
  by (simp add: state_rel_def node_rel_def written_alike_refl)

lemma state_rel_trans:
  "state_rel s t s1 t1 \<Longrightarrow> state_rel s1 t1 s' t' \<Longrightarrow> state_rel s t s' t'"
proof -
  assume a: "state_rel s t s1 t1" and b: "state_rel s1 t1 s' t'"
  have "node_rel (heap s a) (heap t a) (heap s' a) (heap t' a)" for a
  proof -
    from a have 1: "node_rel (heap s a) (heap t a) (heap s1 a) (heap t1 a)"
      by (simp add: state_rel_def)
    from b have 2: "node_rel (heap s1 a) (heap t1 a) (heap s' a) (heap t' a)"
      by (simp add: state_rel_def)
    from 1 2 show ?thesis
      unfolding node_rel_def using written_alike_trans by metis
  qed
  moreover have "written_alike (name s) (name t) (name s') (name t')"
    using a b unfolding state_rel_def using written_alike_trans by metis
  ultimately show ?thesis by (simp add: state_rel_def)
qed

lemma state_rel_same_modes:
  "state_rel s t s' t' \<Longrightarrow> same_modes s t \<Longrightarrow> same_modes s' t'"
  by (simp add: state_rel_def node_rel_def same_modes_def identity_fields_def)

lemma enrichNode_rel:
  assumes "same_modes s t" and "enrichNode nodes c s = Inr s1"
  shows "\<exists>t1. enrichNode nodes c t = Inr t1 \<and> state_rel s t s1 t1"
  using assms
  by (auto simp: enrichNode_def Let_def same_modes_def state_rel_def node_rel_def
      written_alike_def mgmt_fields_def identity_fields_def
      split: option.splits ref.splits if_splits)

lemma enrichNodes_rel:
  "same_modes s t \<Longrightarrow> enrichNodes cs nodes m s = Inr s' \<Longrightarrow>
   \<exists>t'. enrichNodes cs nodes m t = Inr t' \<and> state_rel s t s' t'"
proof (induction cs arbitrary: s t)
  case Nil
  then show ?case by (simp add: state_rel_refl)
next
  case (Cons c cs)
  from Cons.prems(2) obtain s1 where s1: "enrichNode nodes c s = Inr s1"
    and rest: "enrichNodes cs nodes m s1 = Inr s'"
    by (auto split: sum.splits)
  from enrichNode_rel [OF Cons.prems(1) s1] obtain t1
    where t1: "enrichNode nodes c t = Inr t1" and r1: "state_rel s t s1 t1" by blast
  have "same_modes s1 t1" using r1 Cons.prems(1) by (rule state_rel_same_modes)
  from Cons.IH [OF this rest] obtain t'
    where t': "enrichNodes cs nodes m t1 = Inr t'" and r2: "state_rel s1 t1 s' t'" by blast
  show ?case using t1 t' state_rel_trans [OF r1 r2] by simp
qed

lemma NodeBase_eqI:
  fixes x y :: NodeBase
  shows "identity_fields x = identity_fields y \<Longrightarrow> mgmt_fields x = mgmt_fields y \<Longrightarrow>
    ContainerID x = ContainerID y \<Longrightarrow> x = y"
  by (simp add: identity_fields_def mgmt_fields_def)

lemma enrichNodes_idem:
  assumes "enrichNodes cs nodes m s = Inr s1"
  shows "enrichNodes cs nodes m s1 = Inr s1"
proof -
  have refl: "same_modes s s" by (simp add: same_modes_def)
  from enrichNodes_rel [OF refl assms] assms have r0: "state_rel s s s1 s1" by auto
  have modes: "same_modes s s1"
    using r0 by (simp add: state_rel_def node_rel_def same_modes_def identity_fields_def)
  from enrichNodes_rel [OF modes assms] obtain s2
    where s2: "enrichNodes cs nodes m s1 = Inr s2" and r: "state_rel s s1 s1 s2" by blast
  have "name s2 = name s1"
    using r by (auto simp: state_rel_def written_alike_def)
  moreover have "heap s2 a = heap s1 a" for a
  proof -
    from r have n: "node_rel (heap s a) (heap s1 a) (heap s1 a) (heap s2 a)"
      by (simp add: state_rel_def)
    show ?thesis
      by (rule NodeBase_eqI) (use n in \<open>auto simp: node_rel_def written_alike_def\<close>)
  qed
  ultimately have "s2 = s1" by (simp add: fun_eq_iff)
  with s2 show ?thesis by simp
qed


lemma enrichNode_returns:
  "NilRef \<notin> ran nodes \<Longrightarrow> \<exists>s'. enrichNode nodes c s = Inr s'"
  by (auto simp: enrichNode_def Let_def ran_def split: option.splits ref.splits)

lemma enrichNodes_returns:
  "NilRef \<notin> ran nodes \<Longrightarrow> \<exists>s'. enrichNodes cs nodes m s = Inr s'"
proof (induction cs arbitrary: s)
  case Nil
  then show ?case by simp
next
  case (Cons c cs)
  from enrichNode_returns [OF Cons.prems] obtain s1 where "enrichNode nodes c s = Inr s1"
    by blast
  with Cons.IH [OF Cons.prems, of s1] show ?case by simp
qed

text \<open>
  C7. For every container list, node map and management-network name: when
  \<^verbatim>\<open>enrichNodes\<close> has run once and returned, running it again on the resulting state
  returns too, and every node's management IPv4 and IPv6 address, prefix lengths and
  container ID are what they were after the first run. The whole state is, in fact.
\<close>

theorem C7_enrich_idempotent:
  assumes "enrichNodes cs nodes mgmtNet s = Inr s1"
  shows "\<exists>s2. enrichNodes cs nodes mgmtNet s1 = Inr s2
     \<and> (\<forall>a. MgmtIPv4Address (heap s2 a) = MgmtIPv4Address (heap s1 a)
           \<and> MgmtIPv4PrefixLength (heap s2 a) = MgmtIPv4PrefixLength (heap s1 a)
           \<and> MgmtIPv6Address (heap s2 a) = MgmtIPv6Address (heap s1 a)
           \<and> MgmtIPv6PrefixLength (heap s2 a) = MgmtIPv6PrefixLength (heap s1 a)
           \<and> ContainerID (heap s2 a) = ContainerID (heap s1 a))
     \<and> s2 = s1"
  using enrichNodes_idem [OF assms] by simp

lemma ToLower_bridge: "ToLower ''bridge'' = ''bridge''"
  by code_simp

lemma ToLower_Host: "ToLower ''Host'' = ''host''"
  by code_simp

lemma example_enriched:
  "enrichNodes [example_r1, example_r2] example_nodes ''clab'' example_state =
     Inr \<lparr>name = ''r2'',
       heap = (\<lambda>a. if a = 0
         then (example_node ''r1'' ''bridge'')\<lparr>MgmtIPv4Address := ''172.20.20.2'',
                MgmtIPv4PrefixLength := 24, ContainerID := ''id-r1''\<rparr>
         else example_node ''r2'' ''Host'')\<rparr>"
  by (simp add: enrichNode_def example_r1_def example_r2_def example_nodes_def
      example_state_def example_node_def map_index_def ToLower_bridge ToLower_Host fun_eq_iff)

theorem C7_enrich_idempotent_witness:
  "enrichNodes [example_r1, example_r2] example_nodes ''clab'' example_state =
     Inr \<lparr>name = ''r2'',
       heap = (\<lambda>a. if a = 0
         then (example_node ''r1'' ''bridge'')\<lparr>MgmtIPv4Address := ''172.20.20.2'',
                MgmtIPv4PrefixLength := 24, ContainerID := ''id-r1''\<rparr>
         else example_node ''r2'' ''Host'')\<rparr>
   \<and> enrichNodes [example_r1, example_r2] example_nodes ''clab''
       \<lparr>name = ''r2'',
       heap = (\<lambda>a. if a = 0
         then (example_node ''r1'' ''bridge'')\<lparr>MgmtIPv4Address := ''172.20.20.2'',
                MgmtIPv4PrefixLength := 24, ContainerID := ''id-r1''\<rparr>
         else example_node ''r2'' ''Host'')\<rparr> =
     Inr \<lparr>name = ''r2'',
       heap = (\<lambda>a. if a = 0
         then (example_node ''r1'' ''bridge'')\<lparr>MgmtIPv4Address := ''172.20.20.2'',
                MgmtIPv4PrefixLength := 24, ContainerID := ''id-r1''\<rparr>
         else example_node ''r2'' ''Host'')\<rparr>"
  using C7_enrich_idempotent [OF example_enriched] example_enriched by simp

text \<open>
  The comparison \<^verbatim>\<open>strings.ToLower(node.NetworkMode) == "host"\<close> holds for the sixteen
  spellings of \<open>host\<close> in upper-case and lower-case letters, and for nothing else.
\<close>

lemma toLowerByte_cases:
  "toLowerByte c = l \<longleftrightarrow>
     (if 65 \<le> (of_char c :: nat) \<and> (of_char c :: nat) \<le> 90
      then (of_char l :: nat) = of_char c + 32 else l = c)"
proof (cases "65 \<le> (of_char c :: nat) \<and> (of_char c :: nat) \<le> 90")
  case True
  then have "(of_char (char_of (of_char c + 32 :: nat)) :: nat) = of_char c + 32"
    by (simp add: of_char_of)
  with True show ?thesis
    by (auto simp: toLowerByte_def Let_def) (metis char_of_char)
next
  case False
  then show ?thesis by (auto simp: toLowerByte_def Let_def)
qed

lemma of_char_eq_iff: "(of_char c :: nat) = of_char d \<longleftrightarrow> c = d"
  by (metis char_of_char)

lemma toLowerByte_h: "toLowerByte c = CHR ''h'' \<longleftrightarrow> c = CHR ''h'' \<or> c = CHR ''H''"
proof -
  have "(of_char c :: nat) = 72 \<longleftrightarrow> c = CHR ''H''"
    using of_char_eq_iff [of c "CHR ''H''"] by simp
  then show ?thesis
    unfolding toLowerByte_cases [of c "CHR ''h''"] by auto
qed


lemma toLowerByte_o: "toLowerByte c = CHR ''o'' \<longleftrightarrow> c = CHR ''o'' \<or> c = CHR ''O''"
proof -
  have "(of_char c :: nat) = 79 \<longleftrightarrow> c = CHR ''O''"
    using of_char_eq_iff [of c "CHR ''O''"] by simp
  then show ?thesis
    unfolding toLowerByte_cases [of c "CHR ''o''"] by auto
qed

lemma toLowerByte_s: "toLowerByte c = CHR ''s'' \<longleftrightarrow> c = CHR ''s'' \<or> c = CHR ''S''"
proof -
  have "(of_char c :: nat) = 83 \<longleftrightarrow> c = CHR ''S''"
    using of_char_eq_iff [of c "CHR ''S''"] by simp
  then show ?thesis
    unfolding toLowerByte_cases [of c "CHR ''s''"] by auto
qed

lemma toLowerByte_t: "toLowerByte c = CHR ''t'' \<longleftrightarrow> c = CHR ''t'' \<or> c = CHR ''T''"
proof -
  have "(of_char c :: nat) = 84 \<longleftrightarrow> c = CHR ''T''"
    using of_char_eq_iff [of c "CHR ''T''"] by simp
  then show ?thesis
    unfolding toLowerByte_cases [of c "CHR ''t''"] by auto
qed

lemma ToLower_host_iff:
  "ToLower m = ''host'' \<longleftrightarrow>
     (\<exists>a b c d. m = [a, b, c, d]
        \<and> (a = CHR ''h'' \<or> a = CHR ''H'') \<and> (b = CHR ''o'' \<or> b = CHR ''O'')
        \<and> (c = CHR ''s'' \<or> c = CHR ''S'') \<and> (d = CHR ''t'' \<or> d = CHR ''T''))"
proof
  assume "ToLower m = ''host''"
  then obtain a b c d where m: "m = [a, b, c, d]"
    and "toLowerByte a = CHR ''h''" "toLowerByte b = CHR ''o''"
        "toLowerByte c = CHR ''s''" "toLowerByte d = CHR ''t''"
    by (auto simp: ToLower_def map_eq_Cons_conv)
  then show "\<exists>a b c d. m = [a, b, c, d]
        \<and> (a = CHR ''h'' \<or> a = CHR ''H'') \<and> (b = CHR ''o'' \<or> b = CHR ''O'')
        \<and> (c = CHR ''s'' \<or> c = CHR ''S'') \<and> (d = CHR ''t'' \<or> d = CHR ''T'')"
    by (simp add: toLowerByte_h toLowerByte_o toLowerByte_s toLowerByte_t)
next
  assume "\<exists>a b c d. m = [a, b, c, d]
        \<and> (a = CHR ''h'' \<or> a = CHR ''H'') \<and> (b = CHR ''o'' \<or> b = CHR ''O'')
        \<and> (c = CHR ''s'' \<or> c = CHR ''S'') \<and> (d = CHR ''t'' \<or> d = CHR ''T'')"
  then obtain a b c d where m: "m = [a, b, c, d]"
    and "toLowerByte a = CHR ''h''" "toLowerByte b = CHR ''o''"
        "toLowerByte c = CHR ''s''" "toLowerByte d = CHR ''t''"
    unfolding toLowerByte_h toLowerByte_o toLowerByte_s toLowerByte_t by blast
  then show "ToLower m = ''host''" by (simp add: ToLower_def)
qed

text \<open>
  C10. For a container matched to a node (the node map holds a reference to a node
  under the container's \<open>clab-node-name\<close> label), one iteration of the loop returns and changes no
  other node. If the node's network mode is \<open>host\<close> in any letter case, the node is left
  as it is, container ID included. Otherwise its container ID is the container's ID,
  and its four management address and prefix fields are the container's when the
  container's network settings are set and unchanged when they are not.
\<close>

theorem C10_enrich_frame:
  assumes "nodes (map_index (Labels c) ''clab-node-name'') = Some (Ref a)"
  shows "\<exists>s'. enrichNode nodes c s = Inr s'
     \<and> (\<forall>b. b \<noteq> a \<longrightarrow> heap s' b = heap s b)
     \<and> (if ToLower (NetworkMode (heap s a)) = ''host'' then heap s' a = heap s a
        else ContainerID (heap s' a) = ID c
           \<and> ShortName (heap s' a) = ShortName (heap s a)
           \<and> LongName (heap s' a) = LongName (heap s a)
           \<and> NetworkMode (heap s' a) = NetworkMode (heap s a)
           \<and> (if Set (NetworkSettings c)
               then MgmtIPv4Address (heap s' a) = IPv4addr (NetworkSettings c)
                  \<and> MgmtIPv4PrefixLength (heap s' a) = IPv4pLen (NetworkSettings c)
                  \<and> MgmtIPv6Address (heap s' a) = IPv6addr (NetworkSettings c)
                  \<and> MgmtIPv6PrefixLength (heap s' a) = IPv6pLen (NetworkSettings c)
               else MgmtIPv4Address (heap s' a) = MgmtIPv4Address (heap s a)
                  \<and> MgmtIPv4PrefixLength (heap s' a) = MgmtIPv4PrefixLength (heap s a)
                  \<and> MgmtIPv6Address (heap s' a) = MgmtIPv6Address (heap s a)
                  \<and> MgmtIPv6PrefixLength (heap s' a) = MgmtIPv6PrefixLength (heap s a)))"
  using assms by (simp add: enrichNode_def Let_def)

lemma example_r1_matched:
  "example_nodes (map_index (Labels example_r1) ''clab-node-name'') = Some (Ref 0)"
  by (simp add: example_nodes_def example_r1_def map_index_def)

lemma example_r2_matched:
  "example_nodes (map_index (Labels example_r2) ''clab-node-name'') = Some (Ref 1)"
  by (simp add: example_nodes_def example_r2_def map_index_def)

theorem C10_enrich_frame_witness:
  "example_nodes (map_index (Labels example_r1) ''clab-node-name'') = Some (Ref 0)
   \<and> example_nodes (map_index (Labels example_r2) ''clab-node-name'') = Some (Ref 1)
   \<and> ToLower (NetworkMode (heap example_state 0)) \<noteq> ''host''
   \<and> ToLower (NetworkMode (heap example_state 1)) = ''host''
   \<and> (\<exists>s'. enrichNode example_nodes example_r1 example_state = Inr s'
        \<and> ContainerID (heap s' 0) = ''id-r1'' \<and> MgmtIPv4Address (heap s' 0) = ''172.20.20.2'')
   \<and> (\<exists>s'. enrichNode example_nodes example_r2 example_state = Inr s'
        \<and> heap s' 1 = heap example_state 1 \<and> ContainerID (heap s' 1) = [])"
  using C10_enrich_frame [of example_nodes example_r1 0 example_state, OF example_r1_matched]
    C10_enrich_frame [of example_nodes example_r2 1 example_state, OF example_r2_matched]
    example_r1_matched example_r2_matched
  by (auto simp: example_state_def example_node_def ToLower_bridge ToLower_Host
      example_r1_def example_r2_def)

subsection \<open>The cEOS node kind and the post-deploy fan-out\<close>


lemma ceosPostDeploy_failure:
  assumes "k < 6"
    and "\<forall>j<k. outcome r (tr @ take j (bootstrap_calls r tmpl n tr)) (bootstrap_calls r tmpl n tr ! j) = None"
    and "outcome r (tr @ take k (bootstrap_calls r tmpl n tr)) (bootstrap_calls r tmpl n tr ! k) = Some e"
  shows "fst (ceosPostDeploy r tmpl n tr) = Some e
       \<and> snd (snd (ceosPostDeploy r tmpl n tr)) = tr @ take (Suc k) (bootstrap_calls r tmpl n tr)"
proof -
  from assms(1) consider "k = 0" | "k = 1" | "k = 2" | "k = 3" | "k = 4" | "k = 5" by linarith
  then show ?thesis
  proof cases
    case 1
    with assms(3) show ?thesis
      by (simp add: ceosPostDeploy_def invoke_def bootstrap_calls_def)
  next
    case 2
    with assms(2,3) show ?thesis
      by (simp add: ceosPostDeploy_def invoke_def bootstrap_calls_def)
  next
    case 3
    with assms(2,3) show ?thesis
      by (simp add: ceosPostDeploy_def invoke_def bootstrap_calls_def numeral_2_eq_2 All_less_Suc)
  next
    case 4
    with assms(2,3) show ?thesis
      by (simp add: ceosPostDeploy_def invoke_def bootstrap_calls_def numeral_3_eq_3 All_less_Suc)
  next
    case 5
    with assms(2,3) show ?thesis
      by (simp add: ceosPostDeploy_def invoke_def bootstrap_calls_def eval_nat_numeral All_less_Suc)
  next
    case 6
    with assms(2,3) show ?thesis
      by (simp add: ceosPostDeploy_def invoke_def bootstrap_calls_def eval_nat_numeral All_less_Suc)
  qed
qed








lemma sysmac_bytes:
  fixes m :: "byte list"
  assumes "length m = 6"
  shows "length (m[5 := m ! 5 + 1]) = 6
       \<and> butlast (m[5 := m ! 5 + 1]) = butlast m
       \<and> unat (last (m[5 := m ! 5 + 1])) = (unat (last m) + 1) mod 256"
proof -
  from assms obtain a b c d e f where m: "m = [a, b, c, d, e, f]"
    by (auto simp: length_Suc_conv eval_nat_numeral)
  show ?thesis
    unfolding m by (simp add: unat_word_ariths)
qed

text \<open>
  Printing six bytes and parsing the text gives the six bytes back: the text that
  \<^verbatim>\<open>String\<close> writes names one address.
\<close>

lemma hexval_hexDigit_all: "list_all (\<lambda>k. hexval (hexDigit ! k) = Some k) [0..<16]"
  by code_simp

lemma hexval_hexDigit: "k < 16 \<Longrightarrow> hexval (hexDigit ! k) = Some k"
  using hexval_hexDigit_all by (simp add: list_all_iff)

lemma hi_nibble_eq: "unat (drop_bit 4 (b :: byte)) = unat b div 16"
  by (simp add: drop_bit_eq_div unat_div)

lemma lo_nibble_eq: "unat ((b :: byte) AND 0xF) = unat b mod 16"
proof -
  have "b AND 0xF = take_bit 4 b"
    by (simp add: take_bit_eq_mask mask_eq_exp_minus_1)
  then show ?thesis
    by (simp add: take_bit_eq_mod unat_mod)
qed

lemma hi_nibble: "unat (drop_bit 4 (b :: byte)) < 16"
proof -
  have "unat b < 256" using unsigned_less [of b, where 'a = nat] by simp
  then show ?thesis unfolding hi_nibble_eq by simp
qed

lemma lo_nibble: "unat ((b :: byte) AND 0xF) < 16"
  unfolding lo_nibble_eq by simp

lemma nibbles_byte: "of_nat (unat (drop_bit 4 (b :: byte)) * 16 + unat (b AND 0xF)) = b"
proof -
  have "unat (drop_bit 4 b) * 16 + unat (b AND 0xF) = unat b"
    unfolding hi_nibble_eq lo_nibble_eq by simp
  then show ?thesis by simp
qed

lemma xtoi2_hex2: "xtoi2 (hex2 b) e = Some b"
  by (simp add: xtoi2_def hex2_def hexval_hexDigit hi_nibble lo_nibble nibbles_byte
      del: of_nat_add of_nat_mult)

lemma xtoi2_hex2_sep: "xtoi2 (hex2 b @ e # rest) e = Some b"
  by (simp add: xtoi2_def hex2_def hexval_hexDigit hi_nibble lo_nibble nibbles_byte
      del: of_nat_add of_nat_mult)

lemma String_six:
  "HardwareAddr_String [a, b, c, d, e, f] =
     hex2 a @ CHR '':'' # hex2 b @ CHR '':'' # hex2 c @ CHR '':'' # hex2 d @ CHR '':'' # hex2 e
       @ CHR '':'' # hex2 f"
  by (simp add: HardwareAddr_String_def hex2_def Let_def)

lemma ParseMAC_String_six:
  assumes "length m = 6"
  shows "ParseMAC (HardwareAddr_String m) = Inr m"
proof -
  from assms obtain a b c d e f where m: "m = [a, b, c, d, e, f]"
    by (auto simp: length_Suc_conv eval_nat_numeral)
  have len: "length (HardwareAddr_String m) = 17"
    unfolding m String_six by (simp add: hex2_def)
  have sep: "HardwareAddr_String m ! 2 = CHR '':''"
    unfolding m String_six by (simp add: hex2_def)
  have idx: "[0..<6] = [0, 1, 2, 3, 4, 5::nat]"
    by (simp add: upt_rec)
  have bytes: "map (\<lambda>i. xtoi2 (drop (3 * i) (HardwareAddr_String m)) CHR '':'') [0..<6]
      = [Some a, Some b, Some c, Some d, Some e, Some f]"
    unfolding idx m String_six
    using xtoi2_hex2_sep xtoi2_hex2
    by (simp add: hex2_def)
  have "ParseMAC (HardwareAddr_String m) = Inr [a, b, c, d, e, f]"
    unfolding ParseMAC_def
    by (simp add: len sep bytes Let_def)
  then show ?thesis by (simp add: m)
qed

text \<open>
  C8. For every management MAC address that parses to 6 bytes, \<^verbatim>\<open>PreDeploy\<close> returns
  \<^verbatim>\<open>nil\<close> and writes, to the file \<^verbatim>\<open>system_mac_address\<close>, the text of an address of 6
  bytes whose first five bytes are those of the management address and whose last byte
  is the last byte plus one modulo 256. The text written parses back to that address.
\<close>

theorem C8_system_mac:
  assumes "ParseMAC (MacAddress (cfg s)) = Inr m" and "length m = 6"
  shows "\<exists>sysmac.
     PreDeploy pj s tr =
       (None,
        s\<lparr>cfg := (cfg s)\<lparr>ResConfig := pj [LabDir (cfg s), ''flash'', ''startup-config'']\<rparr>\<rparr>,
        tr @ [CreateDirectory (LabDir (cfg s)) 511,
              CreateDirectory (pj [LabDir (cfg s), ''flash'']) 511,
              CreateFile (pj [LabDir (cfg s), ''flash'', ''system_mac_address''])
                (HardwareAddr_String sysmac)])
     \<and> ParseMAC (HardwareAddr_String sysmac) = Inr sysmac
     \<and> length sysmac = 6
     \<and> butlast sysmac = butlast m
     \<and> unat (last sysmac) = (unat (last m) + 1) mod 256"
proof -
  have "PreDeploy pj s tr =
       (None,
        s\<lparr>cfg := (cfg s)\<lparr>ResConfig := pj [LabDir (cfg s), ''flash'', ''startup-config'']\<rparr>\<rparr>,
        tr @ [CreateDirectory (LabDir (cfg s)) 511,
              CreateDirectory (pj [LabDir (cfg s), ''flash'']) 511,
              CreateFile (pj [LabDir (cfg s), ''flash'', ''system_mac_address''])
                (HardwareAddr_String (m[5 := m ! 5 + 1]))])"
    using assms(1) by (simp add: PreDeploy_def createCEOSFiles_def perform_def Let_def)
  moreover have "ParseMAC (HardwareAddr_String (m[5 := m ! 5 + 1])) = Inr (m[5 := m ! 5 + 1])"
    using assms(2) by (simp add: ParseMAC_String_six)
  ultimately show ?thesis
    using sysmac_bytes [OF assms(2)] by blast
qed

lemma example_mac_parsed:
  "ParseMAC ''00:1c:73:aa:bb:ff'' = Inr [0x00, 0x1c, 0x73, 0xaa, 0xbb, 0xff]"
  by code_simp

lemma example_sysmac_string:
  "HardwareAddr_String [0x00, 0x1c, 0x73, 0xaa, 0xbb, 0x00] = ''00:1c:73:aa:bb:00''"
  by code_simp

lemma byte_wraps: "(256 :: byte) = 0"
  by simp

lemma example_predeploy:
  "PreDeploy example_join \<lparr>cfg = example_cfg ''r1''\<rparr> [] =
     (None, \<lparr>cfg = example_cfg ''r1''\<rparr>,
      [CreateDirectory ''/lab/r1'' 511,
       CreateDirectory ''/lab/r1/flash'' 511,
       CreateFile ''/lab/r1/flash/system_mac_address'' ''00:1c:73:aa:bb:00''])"
  by (simp add: PreDeploy_def createCEOSFiles_def perform_def example_cfg_def example_join_def
      example_mac_parsed byte_wraps example_sysmac_string)

theorem C8_system_mac_witness:
  "ParseMAC (MacAddress (cfg \<lparr>cfg = example_cfg ''r1''\<rparr>)) = Inr [0x00, 0x1c, 0x73, 0xaa, 0xbb, 0xff]
   \<and> length [0x00, 0x1c, 0x73, 0xaa, 0xbb, 0xff :: byte] = 6
   \<and> (\<exists>sysmac. snd (snd (PreDeploy example_join \<lparr>cfg = example_cfg ''r1''\<rparr> [])) ! 2 =
          CreateFile (example_join [''/lab/r1'', ''flash'', ''system_mac_address''])
            (HardwareAddr_String sysmac)
        \<and> butlast sysmac = [0x00, 0x1c, 0x73, 0xaa, 0xbb] \<and> unat (last sysmac) = 0)"
proof -
  have p: "ParseMAC (MacAddress (cfg \<lparr>cfg = example_cfg ''r1''\<rparr>)) = Inr [0x00, 0x1c, 0x73, 0xaa, 0xbb, 0xff]"
    by (simp add: example_cfg_def example_mac_parsed)
  have l: "length [0x00, 0x1c, 0x73, 0xaa, 0xbb, 0xff :: byte] = 6" by simp
  from C8_system_mac [OF p l, of example_join "[]"] p l show ?thesis
    by (auto simp: example_cfg_def)
qed


lemma Init_loop_entries:
  "Init_loop ks env envSb = envSb @ concat (map (setenv_entry env) ks)"
  by (induction ks arbitrary: envSb) (simp_all add: setenv_entry_def)

lemma Init_Cmd:
  "Cmd (cfg (snd (Init ext s cfg0 opts))) =
     ''/sbin/init '' @ concat (map (setenv_entry (Env (cfg (snd (Init ext s cfg0 opts))))) (range_order ext))"
  by (simp add: Init_def Let_def Init_loop_entries)

lemma Init_Env:
  "Env (cfg (snd (Init ext s cfg0 opts))) =
     MergeStringMaps ext (map_of ceosEnv) (Env (cfg (foldl (\<lambda>s opt. opt s) (s\<lparr>cfg := cfg0\<rparr>) opts)))"
  by (simp add: Init_def Let_def)

lemma range_orders_mset:
  assumes "is_range_order m ks" and "is_range_order m ks'"
  shows "mset ks = mset ks'"
proof -
  from assms have "distinct ks" "distinct ks'" "set ks = set ks'"
    by (simp_all add: is_range_order_def)
  then show ?thesis by (simp add: set_eq_iff_mset_eq_distinct)
qed

text \<open>
  C2, amended. For two invocations of \<^verbatim>\<open>Init\<close> that end with the same merged
  environment, each command line is \<^verbatim>\<open>/sbin/init\<close> followed by one
  \<^verbatim>\<open>systemd.setenv=K=V\<close> entry for every key of the environment, in the order in
  which that invocation's loop visited the map. The two command lines hold the same
  entries, each as often, and are identical when the two orders are.
\<close>

theorem C2_init_cmd_entries:
  assumes "Env (cfg (snd (Init ext1 s1 cfg1 opts1))) = env"
    and "Env (cfg (snd (Init ext2 s2 cfg2 opts2))) = env"
    and "is_range_order env (range_order ext1)"
    and "is_range_order env (range_order ext2)"
  shows "Cmd (cfg (snd (Init ext1 s1 cfg1 opts1))) =
           ''/sbin/init '' @ concat (map (setenv_entry env) (range_order ext1))
       \<and> Cmd (cfg (snd (Init ext2 s2 cfg2 opts2))) =
           ''/sbin/init '' @ concat (map (setenv_entry env) (range_order ext2))
       \<and> mset (map (setenv_entry env) (range_order ext1)) =
           mset (map (setenv_entry env) (range_order ext2))
       \<and> (range_order ext1 = range_order ext2 \<longrightarrow>
            Cmd (cfg (snd (Init ext1 s1 cfg1 opts1))) = Cmd (cfg (snd (Init ext2 s2 cfg2 opts2))))"
proof -
  have c1: "Cmd (cfg (snd (Init ext1 s1 cfg1 opts1))) =
           ''/sbin/init '' @ concat (map (setenv_entry env) (range_order ext1))"
    using Init_Cmd [of ext1 s1 cfg1 opts1] assms(1) by simp
  have c2: "Cmd (cfg (snd (Init ext2 s2 cfg2 opts2))) =
           ''/sbin/init '' @ concat (map (setenv_entry env) (range_order ext2))"
    using Init_Cmd [of ext2 s2 cfg2 opts2] assms(2) by simp
  have "mset (range_order ext1) = mset (range_order ext2)"
    using assms(3,4) by (rule range_orders_mset)
  then have "mset (map (setenv_entry env) (range_order ext1)) =
           mset (map (setenv_entry env) (range_order ext2))"
    by (metis mset_map)
  with c1 c2 show ?thesis by simp
qed

lemma example_merged_env:
  "Env (cfg (snd (Init (example_init_env order) \<lparr>cfg = example_cfg ''r1''\<rparr> (example_cfg ''r1'') []))) =
     map_of ceosEnv"
  by (simp add: Init_Env example_init_env_def example_cfg_def)

lemma ceosEnv_keys_order: "is_range_order (map_of ceosEnv) ceosEnv_keys"
  by (simp add: is_range_order_def ceosEnv_keys_def ceosEnv_def dom_map_of_conv_image_fst)

lemma ceosEnv_keys_rev_order: "is_range_order (map_of ceosEnv) (rev ceosEnv_keys)"
  using ceosEnv_keys_order by (simp add: is_range_order_def)

lemma example_cmd_forward:
  "Cmd (cfg (snd (Init (example_init_env ceosEnv_keys) \<lparr>cfg = example_cfg ''r1''\<rparr> (example_cfg ''r1'') []))) =
     ''/sbin/init systemd.setenv=CEOS=1 systemd.setenv=EOS_PLATFORM=ceoslab systemd.setenv=container=docker systemd.setenv=ETBA=4 systemd.setenv=SKIP_ZEROTOUCH_BARRIER_IN_SYSDBINIT=1 systemd.setenv=INTFTYPE=eth systemd.setenv=MAPETH0=1 systemd.setenv=MGMT_INTF=eth0 ''"
  unfolding Init_Cmd example_merged_env
  by (simp add: example_init_env_def ceosEnv_keys_def ceosEnv_def setenv_entry_def map_index_def)

lemma example_cmd_backward:
  "Cmd (cfg (snd (Init (example_init_env (rev ceosEnv_keys)) \<lparr>cfg = example_cfg ''r1''\<rparr> (example_cfg ''r1'') []))) =
     ''/sbin/init systemd.setenv=MGMT_INTF=eth0 systemd.setenv=MAPETH0=1 systemd.setenv=INTFTYPE=eth systemd.setenv=SKIP_ZEROTOUCH_BARRIER_IN_SYSDBINIT=1 systemd.setenv=ETBA=4 systemd.setenv=container=docker systemd.setenv=EOS_PLATFORM=ceoslab systemd.setenv=CEOS=1 ''"
  unfolding Init_Cmd example_merged_env
  by (simp add: example_init_env_def ceosEnv_keys_def ceosEnv_def setenv_entry_def map_index_def)

text \<open>
  C2 as stated fails: two invocations on the same configuration, with the same merged
  environment, whose loops visit the eight keys in opposite orders, give different
  command lines.
\<close>

theorem C2_cmd_order_counterexample:
  "Env (cfg (snd (Init (example_init_env ceosEnv_keys) \<lparr>cfg = example_cfg ''r1''\<rparr> (example_cfg ''r1'') [])))
     = Env (cfg (snd (Init (example_init_env (rev ceosEnv_keys)) \<lparr>cfg = example_cfg ''r1''\<rparr> (example_cfg ''r1'') [])))
   \<and> is_range_order (map_of ceosEnv) (range_order (example_init_env ceosEnv_keys))
   \<and> is_range_order (map_of ceosEnv) (range_order (example_init_env (rev ceosEnv_keys)))
   \<and> Cmd (cfg (snd (Init (example_init_env ceosEnv_keys) \<lparr>cfg = example_cfg ''r1''\<rparr> (example_cfg ''r1'') [])))
     \<noteq> Cmd (cfg (snd (Init (example_init_env (rev ceosEnv_keys)) \<lparr>cfg = example_cfg ''r1''\<rparr> (example_cfg ''r1'') [])))"
proof -
  have "range_order (example_init_env ks) = ks" for ks
    by (simp add: example_init_env_def)
  then show ?thesis
    unfolding example_cmd_forward example_cmd_backward example_merged_env
    using ceosEnv_keys_order ceosEnv_keys_rev_order by simp
qed

theorem C2_init_cmd_entries_witness:
  "is_range_order (map_of ceosEnv) ceosEnv_keys
   \<and> is_range_order (map_of ceosEnv) (rev ceosEnv_keys)
   \<and> mset (map (setenv_entry (map_of ceosEnv)) ceosEnv_keys) =
       mset (map (setenv_entry (map_of ceosEnv)) (rev ceosEnv_keys))
   \<and> Cmd (cfg (snd (Init (example_init_env ceosEnv_keys) \<lparr>cfg = example_cfg ''r1''\<rparr> (example_cfg ''r1'') []))) =
       ''/sbin/init '' @ concat (map (setenv_entry (map_of ceosEnv)) ceosEnv_keys)"
proof -
  have r: "range_order (example_init_env ks) = ks" for ks
    by (simp add: example_init_env_def)
  have o1: "is_range_order (map_of ceosEnv) (range_order (example_init_env ceosEnv_keys))"
    using ceosEnv_keys_order by (simp add: r)
  have o2: "is_range_order (map_of ceosEnv) (range_order (example_init_env (rev ceosEnv_keys)))"
    using ceosEnv_keys_rev_order by (simp add: r)
  from C2_init_cmd_entries [OF example_merged_env example_merged_env o1 o2] o1 o2
  show ?thesis by (simp add: r)
qed


lemma postDeployFanout_length:
  "length (fst (postDeployFanout exec nodes lmw tr lg)) = length nodes"
proof (induction nodes arbitrary: tr lg)
  case Nil
  then show ?case by simp
next
  case (Cons a nodes)
  obtain err a' tra where a: "exec a lmw tr = (err, a', tra)"
    by (cases "exec a lmw tr") auto
  define lga where "lga = (case err of
      Some e \<Rightarrow> lg @ [LogErrorf ''failed to run postdeploy task for node %s: %v''
                         [ArgString (ShortName a'), ArgError e]]
    | None \<Rightarrow> lg)"
  obtain p' trb lgb where p: "postDeployFanout exec nodes lmw tra lga = (p', trb, lgb)"
    by (cases "postDeployFanout exec nodes lmw tra lga") auto
  from Cons.IH [of tra lga] p have "length p' = length nodes" by simp
  with a p show ?case by (simp add: lga_def Let_def)
qed

lemma postDeployFanout_append:
  assumes "postDeployFanout exec pre lmw tr lg = (pre', tr1, lg1)"
  shows "postDeployFanout exec (pre @ rest) lmw tr lg =
     (case postDeployFanout exec rest lmw tr1 lg1 of
        (rest', tr2, lg2) \<Rightarrow> (pre' @ rest', tr2, lg2))"
  using assms
proof (induction pre arbitrary: tr lg pre')
  case Nil
  then show ?case by (simp split: prod.splits)
next
  case (Cons a pre)
  obtain err a' tra where a: "exec a lmw tr = (err, a', tra)"
    by (cases "exec a lmw tr") auto
  define lga where "lga = (case err of
      Some e \<Rightarrow> lg @ [LogErrorf ''failed to run postdeploy task for node %s: %v''
                         [ArgString (ShortName a'), ArgError e]]
    | None \<Rightarrow> lg)"
  obtain p' where p: "postDeployFanout exec pre lmw tra lga = (p', tr1, lg1)"
    and pre': "pre' = a' # p'"
    using Cons.prems a by (auto simp: lga_def Let_def split: prod.splits)
  from Cons.IH [OF p] show ?case
    using a pre' by (simp add: lga_def Let_def split: prod.splits)
qed

lemma RunE_postDeploy_returns_nil:
  "fst (RunE_postDeploy exec flt nodes containers mgmtNetwork lmw w) = None"
  by (simp add: RunE_postDeploy_def Let_def split: prod.splits)

lemma postDeployFanout_failure:
  assumes "postDeployFanout exec pre lmw tr0 lg0 = (pre', tr1, lg1)"
    and "exec a lmw tr1 = (Some e, a', tr2)"
  shows "postDeployFanout exec (pre @ a # post) lmw tr0 lg0 =
           (case postDeployFanout exec post lmw tr2
                   (lg1 @ [LogErrorf ''failed to run postdeploy task for node %s: %v''
                             [ArgString (ShortName a'), ArgError e]]) of
              (post', tr3, lg3) \<Rightarrow> (pre' @ a' # post', tr3, lg3))"
  unfolding postDeployFanout_append [OF assms(1)]
  using assms(2) by (simp split: prod.splits)

lemma postDeployFanout_keeps_logs:
  "x \<in> set lg \<Longrightarrow> x \<in> set (snd (snd (postDeployFanout exec nodes lmw tr lg)))"
proof (induction nodes arbitrary: tr lg)
  case Nil
  then show ?case by simp
next
  case (Cons a nodes)
  obtain err a' tra where a: "exec a lmw tr = (err, a', tra)"
    by (cases "exec a lmw tr") auto
  define lga where "lga = (case err of
      Some e \<Rightarrow> lg @ [LogErrorf ''failed to run postdeploy task for node %s: %v''
                         [ArgString (ShortName a'), ArgError e]]
    | None \<Rightarrow> lg)"
  have "x \<in> set lga" using Cons.prems by (simp add: lga_def split: option.splits)
  from Cons.IH [OF this, of tra] have rest: "x \<in> set (snd (snd (postDeployFanout exec nodes lmw tra lga)))" .
  obtain p' trb lgb where p: "postDeployFanout exec nodes lmw tra lga = (p', trb, lgb)"
    by (cases "postDeployFanout exec nodes lmw tra lga") auto
  with rest have "x \<in> set lgb" by simp
  with a p show ?case by (simp add: lga_def Let_def)
qed

lemma RunE_postDeploy_world:
  assumes "postDeployFanout exec nodes lmw tr0 lg0 = (nodes', tr3, lg3)"
  shows "RunE_postDeploy exec flt nodes containers mgmtNetwork lmw
           \<lparr>calls = tr0, os = st, logs = lg0\<rparr> =
         (None, nodes',
          \<lparr>calls = tr3 @ [CreateLinks lmw True, NewVerNotification,
                           PrintContainerInspect containers mgmtNetwork],
           os = snd (createHostsFile flt containers mgmtNetwork st),
           logs = lg3 @ [LogInfo ''Writing /etc/hosts file'']
                  @ (case fst (createHostsFile flt containers mgmtNetwork st) of
                       None \<Rightarrow> []
                     | Some err \<Rightarrow> [LogErrorf ''failed to create hosts file: %v'' [ArgError err]])\<rparr>)"
  using assms
  by (simp add: RunE_postDeploy_def perform_def Let_def split: prod.splits option.splits)

lemma ceosPostDeploy_ShortName:
  "ShortName (fst (snd (ceosPostDeploy r tmpl n tr))) = ShortName n"
  by (simp add: ceosPostDeploy_def invoke_def Let_def split: option.splits)

text \<open>
  C5. If call number \<open>k\<close> of the six calls of the protocol is the first to fail, with
  the error \<open>e\<close>, then \<^verbatim>\<open>PostDeploy\<close> returns \<open>e\<close> and has made the calls up to that one
  and none after it. When that is the post-deploy task of the node in the fan-out of
  \<^verbatim>\<open>RunE\<close>, the fan-out logs \<open>e\<close> with the node's short name and runs the tasks of the
  nodes after it all the same, from the trace the failed task left. \<^verbatim>\<open>RunE\<close> then goes
  on to its end: the world it returns holds the trace of those tasks followed by the
  second pass of link creation, the version notice and the summary, the hosts file is
  written, the log holds the failure, every node has its result, and \<^verbatim>\<open>RunE\<close> returns
  \<^verbatim>\<open>nil\<close>.
\<close>

theorem C5_bootstrap_failure:
  assumes "k < 6"
    and "\<forall>j<k. outcome r (tr1 @ take j (bootstrap_calls r tmpl a tr1)) (bootstrap_calls r tmpl a tr1 ! j) = None"
    and "outcome r (tr1 @ take k (bootstrap_calls r tmpl a tr1)) (bootstrap_calls r tmpl a tr1 ! k) = Some e"
    and "postDeployFanout exec pre lmw tr0 lg0 = (pre', tr1, lg1)"
    and "exec a lmw tr1 = ceosPostDeploy r tmpl a tr1"
  shows "fst (PostDeploy r tmpl \<lparr>cfg = a\<rparr> tr1) = Some e
       \<and> snd (snd (PostDeploy r tmpl \<lparr>cfg = a\<rparr> tr1)) = tr1 @ take (Suc k) (bootstrap_calls r tmpl a tr1)
       \<and> postDeployFanout exec (pre @ a # post) lmw tr0 lg0 =
           (case postDeployFanout exec post lmw (tr1 @ take (Suc k) (bootstrap_calls r tmpl a tr1))
                   (lg1 @ [LogErrorf ''failed to run postdeploy task for node %s: %v''
                             [ArgString (ShortName a), ArgError e]]) of
              (post', tr3, lg3) \<Rightarrow>
                (pre' @ fst (snd (ceosPostDeploy r tmpl a tr1)) # post', tr3, lg3))
       \<and> length (fst (postDeployFanout exec (pre @ a # post) lmw tr0 lg0)) = length (pre @ a # post)
       \<and> fst (RunE_postDeploy exec flt (pre @ a # post) containers mgmtNetwork lmw w) = None
       \<and> RunE_postDeploy exec flt (pre @ a # post) containers mgmtNetwork lmw
            \<lparr>calls = tr0, os = st, logs = lg0\<rparr> =
           (case postDeployFanout exec post lmw (tr1 @ take (Suc k) (bootstrap_calls r tmpl a tr1))
                   (lg1 @ [LogErrorf ''failed to run postdeploy task for node %s: %v''
                             [ArgString (ShortName a), ArgError e]]) of
              (post', tr3, lg3) \<Rightarrow>
                (None,
                 pre' @ fst (snd (ceosPostDeploy r tmpl a tr1)) # post',
                 \<lparr>calls = tr3 @ [CreateLinks lmw True, NewVerNotification,
                                  PrintContainerInspect containers mgmtNetwork],
                  os = snd (createHostsFile flt containers mgmtNetwork st),
                  logs = lg3 @ [LogInfo ''Writing /etc/hosts file'']
                         @ (case fst (createHostsFile flt containers mgmtNetwork st) of
                              None \<Rightarrow> []
                            | Some err \<Rightarrow>
                                [LogErrorf ''failed to create hosts file: %v'' [ArgError err]])\<rparr>))
       \<and> LogErrorf ''failed to run postdeploy task for node %s: %v''
            [ArgString (ShortName a), ArgError e]
           \<in> set (logs (snd (snd (RunE_postDeploy exec flt (pre @ a # post) containers
                                    mgmtNetwork lmw \<lparr>calls = tr0, os = st, logs = lg0\<rparr>))))"
proof -
  let ?entry = "LogErrorf ''failed to run postdeploy task for node %s: %v''
                  [ArgString (ShortName a), ArgError e]"
  let ?tr2 = "tr1 @ take (Suc k) (bootstrap_calls r tmpl a tr1)"
  let ?a' = "fst (snd (ceosPostDeploy r tmpl a tr1))"
  note f = ceosPostDeploy_failure [OF assms(1,2,3)]
  obtain err a' tr' where run: "ceosPostDeploy r tmpl a tr1 = (err, a', tr')"
    by (cases "ceosPostDeploy r tmpl a tr1") auto
  with f have err: "err = Some e" and tr': "tr' = ?tr2"
    by simp_all
  have a': "a' = ?a'" using run by simp
  have sn: "ShortName a' = ShortName a"
    using ceosPostDeploy_ShortName [of r tmpl a tr1] run by simp
  have 1: "fst (PostDeploy r tmpl \<lparr>cfg = a\<rparr> tr1) = Some e"
    using f run by (simp add: PostDeploy_def)
  have 2: "snd (snd (PostDeploy r tmpl \<lparr>cfg = a\<rparr> tr1)) = ?tr2"
    using f run by (simp add: PostDeploy_def)
  have task: "exec a lmw tr1 = (Some e, a', tr')"
    using assms(5) run err by simp
  obtain post' tr3 lg3 where post: "postDeployFanout exec post lmw ?tr2 (lg1 @ [?entry]) = (post', tr3, lg3)"
    by (cases "postDeployFanout exec post lmw ?tr2 (lg1 @ [?entry])") auto
  have 3: "postDeployFanout exec (pre @ a # post) lmw tr0 lg0 = (pre' @ ?a' # post', tr3, lg3)"
    using postDeployFanout_failure [OF assms(4) task, of post] post tr' sn a' by simp
  have 4: "length (fst (postDeployFanout exec (pre @ a # post) lmw tr0 lg0)) = length (pre @ a # post)"
    by (rule postDeployFanout_length)
  have 5: "fst (RunE_postDeploy exec flt (pre @ a # post) containers mgmtNetwork lmw w) = None"
    by (rule RunE_postDeploy_returns_nil)
  note world = RunE_postDeploy_world [OF 3, of flt containers mgmtNetwork st]
  have "?entry \<in> set (lg1 @ [?entry])" by simp
  from postDeployFanout_keeps_logs [OF this, of exec post lmw ?tr2] post
  have "?entry \<in> set lg3" by simp
  then have 7: "?entry \<in> set (logs (snd (snd (RunE_postDeploy exec flt (pre @ a # post) containers
                                    mgmtNetwork lmw \<lparr>calls = tr0, os = st, logs = lg0\<rparr>))))"
    unfolding world by simp
  show ?thesis
    using 1 2 3 4 5 7 world post by simp
qed

lemma example_r1_stop_fails:
  "ceosPostDeploy stop_fails ''tmpl'' (example_cfg ''r1'') [] =
     (Some (ExternalError ''cannot stop''), example_cfg ''r1'',
      [GenerateConfig (example_cfg ''r1'') ''/lab/r1/flash/startup-config'' ''tmpl'',
       StopContainer ''id-r1'' 1])"
  by (simp add: ceosPostDeploy_def invoke_def stop_fails_def example_cfg_def)

lemma example_r2_restarts:
  "ceosPostDeploy stop_fails ''tmpl'' (example_cfg ''r2'') tr =
     (None, (example_cfg ''r2'')\<lparr>NSPath := ''/proc/42/ns/net''\<rparr>,
      tr @ [GenerateConfig (example_cfg ''r2'') ''/lab/r2/flash/startup-config'' ''tmpl'',
       StopContainer ''id-r2'' 1,
       DeleteNetnsSymlink ''clab-lab-r2'',
       StartContainer ''id-r2'',
       GetNSPath ''id-r2'',
       LinkContainerNS ''/proc/42/ns/net'' ''clab-lab-r2''])"
  by (simp add: ceosPostDeploy_def invoke_def stop_fails_def example_cfg_def)

theorem C5_bootstrap_failure_witness:
  "fst (PostDeploy stop_fails ''tmpl'' \<lparr>cfg = example_cfg ''r1''\<rparr> []) = Some (ExternalError ''cannot stop'')
   \<and> snd (snd (PostDeploy stop_fails ''tmpl'' \<lparr>cfg = example_cfg ''r1''\<rparr> [])) =
       [GenerateConfig (example_cfg ''r1'') ''/lab/r1/flash/startup-config'' ''tmpl'',
        StopContainer ''id-r1'' 1]
   \<and> postDeployFanout (ceos_task stop_fails ''tmpl'') [example_cfg ''r1'', example_cfg ''r2''] 2 [] [] =
       ([example_cfg ''r1'', (example_cfg ''r2'')\<lparr>NSPath := ''/proc/42/ns/net''\<rparr>],
        [GenerateConfig (example_cfg ''r1'') ''/lab/r1/flash/startup-config'' ''tmpl'',
         StopContainer ''id-r1'' 1,
         GenerateConfig (example_cfg ''r2'') ''/lab/r2/flash/startup-config'' ''tmpl'',
         StopContainer ''id-r2'' 1,
         DeleteNetnsSymlink ''clab-lab-r2'',
         StartContainer ''id-r2'',
         GetNSPath ''id-r2'',
         LinkContainerNS ''/proc/42/ns/net'' ''clab-lab-r2''],
        [LogErrorf ''failed to run postdeploy task for node %s: %v''
           [ArgString ''r1'', ArgError (ExternalError ''cannot stop'')]])
   \<and> RunE_postDeploy (ceos_task stop_fails ''tmpl'') no_faults
          [example_cfg ''r1'', example_cfg ''r2''] [example_unset] ''clab'' 2
          \<lparr>calls = [], os = example_os, logs = []\<rparr> =
       (None,
        [example_cfg ''r1'', (example_cfg ''r2'')\<lparr>NSPath := ''/proc/42/ns/net''\<rparr>],
        \<lparr>calls =
           [GenerateConfig (example_cfg ''r1'') ''/lab/r1/flash/startup-config'' ''tmpl'',
            StopContainer ''id-r1'' 1,
            GenerateConfig (example_cfg ''r2'') ''/lab/r2/flash/startup-config'' ''tmpl'',
            StopContainer ''id-r2'' 1,
            DeleteNetnsSymlink ''clab-lab-r2'',
            StartContainer ''id-r2'',
            GetNSPath ''id-r2'',
            LinkContainerNS ''/proc/42/ns/net'' ''clab-lab-r2'',
            CreateLinks 2 True,
            NewVerNotification,
            PrintContainerInspect [example_unset] ''clab''],
         os = example_os,
         logs =
           [LogErrorf ''failed to run postdeploy task for node %s: %v''
              [ArgString ''r1'', ArgError (ExternalError ''cannot stop'')],
            LogInfo ''Writing /etc/hosts file'']\<rparr>)"
proof -
  let ?cs = "bootstrap_calls stop_fails ''tmpl'' (example_cfg ''r1'') []"
  have h1: "(1::nat) < 6" by simp
  have h2: "\<forall>j<1. outcome stop_fails ([] @ take j ?cs) (?cs ! j) = None"
    by (simp add: bootstrap_calls_def stop_fails_def)
  have h3: "outcome stop_fails ([] @ take 1 ?cs) (?cs ! 1) = Some (ExternalError ''cannot stop'')"
    by (simp add: bootstrap_calls_def stop_fails_def example_cfg_def)
  have h4: "postDeployFanout (ceos_task stop_fails ''tmpl'') [] 2 [] [] = ([], [], [])"
    by simp
  have h5: "ceos_task stop_fails ''tmpl'' (example_cfg ''r1'') 2 [] =
     ceosPostDeploy stop_fails ''tmpl'' (example_cfg ''r1'') []"
    by (simp add: ceos_task_def)
  have sn: "ShortName (example_cfg ''r1'') = ''r1''"
    by (simp add: example_cfg_def)
  have hosts: "createHostsFile no_faults [example_unset] ''clab'' example_os = (None, example_os)"
    by (simp add: createHostsFile_def example_unset_no_data)
  from C5_bootstrap_failure [OF h1 h2 h3 h4 h5,
      of "[example_cfg ''r2'']" no_faults "[example_unset]" "''clab''"
         "\<lparr>calls = [], os = example_os, logs = []\<rparr>" example_os]
  show ?thesis
    by (simp add: ceos_task_def example_r1_stop_fails example_r2_restarts sn PostDeploy_def
        RunE_postDeploy_def perform_def hosts)
qed

end
